theory Spec2Isabelle
  imports Complex_Main "HOL-Library.Sublist"
begin

text \<open>
  A shallow embedding of the e-mail classifier: the text normaliser
  (\<open>app/nlp/preprocess.py\<close>), the interpreter of the model's reply
  (\<open>app/services/classifier.py\<close>), the completion client with its retry policy
  (\<open>app/services/openai_client.py\<close>), the reply generator
  (\<open>app/services/response_generator.py\<close>) and the classification entry point with its
  result cache (\<open>app/api/routes.py\<close>). Exceptions are values of the type \<open>exn\<close> and a
  function that may raise returns \<open>exn + 'a\<close>; the mutable globals (cache, history, the
  count of remote invocations) are the record \<open>app_state\<close>, passed in and returned;
  logging is left out. The definitions come first, the lemmas and theorems after them.
\<close>

section \<open>Python strings\<close>

text \<open>
  A Python \<open>str\<close> is modelled as a \<open>string\<close> with one \<open>char\<close> per code point, so the
  model covers the texts whose code points lie in U+0000..U+00FF (Latin-1, which holds
  the accented letters of the Portuguese prompts and stopwords).
\<close>

definition whitespace :: string where
  \<comment> \<open>the code points below U+0100 for which \<open>str.isspace\<close> holds; \<open>str.split()\<close>,
      \<open>str.strip()\<close> and the regular expression classes \<open>\s\<close>, \<open>\S\<close> all use this set\<close>
  "whitespace = [CHR 0x09, CHR 0x0A, CHR 0x0B, CHR 0x0C, CHR 0x0D, CHR 0x1C, CHR 0x1D,
                 CHR 0x1E, CHR 0x1F, CHR 0x20, CHR 0x85, CHR 0xA0]"

definition isspace :: "char \<Rightarrow> bool" where
  "isspace c = (c \<in> set whitespace)"

abbreviation nonspace :: "char \<Rightarrow> bool" where
  "nonspace c \<equiv> \<not> isspace c"

definition lower_char :: "char \<Rightarrow> char" where
  \<comment> \<open>\<open>A\<close>..\<open>Z\<close> and the Latin-1 capitals U+00C0..U+00DE (U+00D7 is the multiplication sign)\<close>
  "lower_char c = (let n = (of_char c :: nat) in
     if (65 \<le> n \<and> n \<le> 90) \<or> (192 \<le> n \<and> n \<le> 222 \<and> n \<noteq> 215)
     then char_of (n + 32) else c)"

definition lower :: "string \<Rightarrow> string" where
  "lower s = map lower_char s"

definition strip :: "string \<Rightarrow> string" where
  "strip s = rev (dropWhile isspace (rev (dropWhile isspace s)))"

definition startswith :: "string \<Rightarrow> string \<Rightarrow> bool" where
  "startswith s p = prefix p s"

fun contains :: "string \<Rightarrow> string \<Rightarrow> bool" where
  \<comment> \<open>\<open>contains sub s\<close> is Python's \<open>sub in s\<close>\<close>
  "contains sub [] = (sub = [])"
| "contains sub (c # cs) = (prefix sub (c # cs) \<or> contains sub cs)"

function split :: "string \<Rightarrow> string list" where
  \<comment> \<open>\<open>str.split()\<close> with no argument: the maximal runs of non-whitespace\<close>
  "split s = (let r = dropWhile isspace s in
     if r = [] then [] else takeWhile nonspace r # split (dropWhile nonspace r))"
  by pat_completeness auto
termination
proof (relation "measure length")
  fix s r :: string
  assume r: "r = dropWhile isspace s" and ne: "r \<noteq> []"
  from ne obtain c cs where rc: "r = c # cs" by (meson list.exhaust)
  have "nonspace (hd r)" using r ne hd_dropWhile [of isspace s] by simp
  with rc have "nonspace c" by simp
  then have "length (dropWhile nonspace r) < length r"
    using rc length_dropWhile_le [of nonspace cs] by simp
  moreover have "length r \<le> length s" using r length_dropWhile_le by simp
  ultimately show "(dropWhile nonspace r, s) \<in> measure length" by simp
qed simp

declare split.simps [simp del]

fun join :: "string \<Rightarrow> string list \<Rightarrow> string" where
  \<comment> \<open>\<open>sep.join(ts)\<close>\<close>
  "join sep [] = []"
| "join sep [t] = t"
| "join sep (t # u # ts) = t @ sep @ join sep (u # ts)"

section \<open>Regular expressions of the source\<close>

text \<open>
  A pattern is modelled by its matcher at the head of a string: \<open>m s = Some n\<close> when the
  pattern matches a prefix of \<open>s\<close>, \<open>n\<close> being the length of the match that Python's
  backtracking search finds. \<open>re_sub m s\<close> is \<open>re.sub(pattern, '', s)\<close>: it scans from
  the left, deletes each match and goes on behind it. An empty match deletes nothing.
\<close>

fun re_sub :: "(string \<Rightarrow> nat option) \<Rightarrow> string \<Rightarrow> string" where
  "re_sub m [] = []"
| "re_sub m (c # cs) =
     (case m (c # cs) of Some (Suc n) \<Rightarrow> re_sub m (drop n cs) | _ \<Rightarrow> c # re_sub m cs)"


definition literal_nonspaces :: "string \<Rightarrow> string \<Rightarrow> nat option" where
  \<comment> \<open>the pattern \<open>lit\S+\<close>: the literal, then a greedy non-empty run of non-whitespace\<close>
  "literal_nonspaces lit s =
     (if prefix lit s \<and> takeWhile nonspace (drop (length lit) s) \<noteq> []
      then Some (length lit + length (takeWhile nonspace (drop (length lit) s)))
      else None)"

definition url_pattern :: "string \<Rightarrow> nat option" where
  \<comment> \<open>\<open>r'http\S+|www\S+|https\S+'\<close>: the alternatives are tried in this order\<close>
  "url_pattern s =
     (case literal_nonspaces ''http'' s of Some n \<Rightarrow> Some n
      | None \<Rightarrow> (case literal_nonspaces ''www'' s of Some n \<Rightarrow> Some n
      | None \<Rightarrow> literal_nonspaces ''https'' s))"

definition email_pattern :: "string \<Rightarrow> nat option" where
  \<comment> \<open>\<open>r'\S+@\S+'\<close>: both runs are greedy, so a match spans the whole run of non-whitespace
      at the head, and there is one when an \<open>@\<close> stands strictly inside that run\<close>
  "email_pattern s =
     (let run = takeWhile nonspace s in
      if CHR ''@'' \<in> set (butlast (tl run)) then Some (length run) else None)"

definition fence_open_pattern :: "string \<Rightarrow> nat option" where
  \<comment> \<open>\<open>r'```json?\s*'\<close>: the literal \<open>```jso\<close>, an optional \<open>n\<close>, then greedy whitespace\<close>
  "fence_open_pattern s =
     (if prefix ''```jso'' s
      then let r = drop 6 s;
               r = (case r of c # cs \<Rightarrow> if c = CHR ''n'' then cs else r | [] \<Rightarrow> r)
           in Some (length s - length (dropWhile isspace r))
      else None)"

definition fence_close_pattern :: "string \<Rightarrow> nat option" where
  \<comment> \<open>\<open>r'```\s*$'\<close>: three backquotes and nothing but whitespace up to the end\<close>
  "fence_close_pattern s =
     (if prefix ''```'' s \<and> list_all isspace (drop 3 s) then Some (length s) else None)"

section \<open>Text normalisation (app/nlp/preprocess.py)\<close>

definition punctuation :: string where
  \<comment> \<open>\<open>string.punctuation\<close>\<close>
  "punctuation = ''!'' @ [CHR 0x22] @ ''#$%&'' @ [CHR 0x27] @ ''()*+,-./:;<=>?@['' @ [CHR 0x5C]
                 @ '']^_`{|}~''"

definition PORTUGUESE_STOPWORDS :: "string list" where
  "PORTUGUESE_STOPWORDS = [
    ''a'', ''ao'', ''aos'', ''aquela'', ''aquelas'', ''aquele'', ''aqueles'', ''aquilo'',
    ''as'', ''at'' @ [CHR 0xE9], ''com'', ''como'', ''da'', ''das'', ''de'', ''dela'', ''delas'', ''dele'',
    ''deles'', ''depois'', ''do'', ''dos'', ''e'', ''ela'', ''elas'', ''ele'', ''eles'', ''em'',
    ''entre'', ''era'', ''eram'', ''essa'', ''essas'', ''esse'', ''esses'', ''esta'', ''estas'',
    ''este'', ''estes'', ''eu'', ''foi'', ''foram'', ''h'' @ [CHR 0xE1], ''isso'', ''isto'', ''j'' @ [CHR 0xE1], ''lhe'',
    ''lhes'', ''lo'', ''mas'', ''me'', ''mesmo'', ''meu'', ''meus'', ''minha'', ''minhas'',
    ''muito'', ''na'', ''nas'', ''n'' @ [CHR 0xE3] @ ''o'', ''nem'', ''no'', ''nos'', ''nossa'', ''nossas'',
    ''nosso'', ''nossos'', ''num'', ''numa'', ''o'', ''os'', ''ou'', ''para'', ''pela'',
    ''pelas'', ''pelo'', ''pelos'', ''por'', ''qual'', ''quando'', ''que'', ''quem'', ''se'',
    ''seja'', ''sem'', ''seu'', ''seus'', ''s'' @ [CHR 0xF3], ''sua'', ''suas'', ''tamb'' @ [CHR 0xE9] @ ''m'', ''te'', ''tem'',
    ''temos'', ''tenho'', ''ter'', ''teu'', ''teus'', ''tu'', ''tua'', ''tuas'', ''um'', ''uma'',
    ''voc'' @ [CHR 0xEA], ''voc'' @ [CHR 0xEA] @ ''s'', ''vos'', [CHR 0xE0], [CHR 0xE0] @ ''s'', [CHR 0xE9]]"

definition remove_punctuation :: "string \<Rightarrow> string" where
  \<comment> \<open>\<open>text.translate(str.maketrans(string.punctuation, ' ' * len(string.punctuation)))\<close>\<close>
  "remove_punctuation text = map (\<lambda>c. if c \<in> set punctuation then CHR '' '' else c) text"

definition remove_extra_whitespace :: "string \<Rightarrow> string" where
  "remove_extra_whitespace text = join '' '' (split text)"

definition tokenize_basic :: "string \<Rightarrow> string list" where
  "tokenize_basic text = split text"

definition remove_stopwords_basic :: "string list \<Rightarrow> string list" where
  "remove_stopwords_basic tokens =
     filter (\<lambda>token. lower token \<notin> set PORTUGUESE_STOPWORDS) tokens"

text \<open>
  spaCy is a library outside the repository. A loaded model is a function from a text to
  its tokens, of which the source reads three attributes; the module globals
  \<open>SPACY_AVAILABLE\<close> and \<open>nlp\<close> are the record \<open>nlp_module\<close>.
\<close>

record token =
  token_lemma :: string
  is_stop :: bool
  is_punct :: bool

record nlp_module =
  SPACY_AVAILABLE :: bool
  nlp :: "(string \<Rightarrow> token list) option"

definition lemmatize_with_spacy :: "nlp_module \<Rightarrow> string \<Rightarrow> string" where
  "lemmatize_with_spacy g text =
     (case nlp g of
        None \<Rightarrow> text
      | Some model \<Rightarrow>
          if \<not> SPACY_AVAILABLE g then text
          else join '' '' (map token_lemma (filter (\<lambda>t. \<not> is_stop t \<and> \<not> is_punct t) (model text))))"

definition preprocess_text :: "nlp_module \<Rightarrow> string \<Rightarrow> bool \<Rightarrow> string" where
  "preprocess_text g text use_lemmatization =
     (if text = [] \<or> strip text = [] then []
      else
        let processed = lower text;
            processed = re_sub url_pattern processed;
            processed = re_sub email_pattern processed;
            processed = remove_punctuation processed;
            processed = remove_extra_whitespace processed;
            processed =
              (if SPACY_AVAILABLE g \<and> use_lemmatization
               then lemmatize_with_spacy g processed
               else join '' '' (remove_stopwords_basic (tokenize_basic processed)))
        in remove_extra_whitespace processed)"



section \<open>Python values and exceptions\<close>

text \<open>
  The exceptions of the builtins, of pydantic (\<open>ValidationError\<close>), of the OpenAI library
  (\<open>APIStatusError n\<close> stands for the errors of a status other than the rate limit:
  authentication, malformed request, server fault) and of tenacity (\<open>RetryError\<close>).
\<close>

datatype exn =
    JSONDecodeError | ValueError | KeyError | TypeError | AttributeError | OverflowError
  | IndexError | RecursionError | ValidationError
  | APIConnectionError | APITimeoutError | RateLimitError | APIStatusError nat
  | RetryError

fun isinstance_ValueError :: "exn \<Rightarrow> bool" where
  \<comment> \<open>\<open>json.JSONDecodeError\<close> and pydantic's \<open>ValidationError\<close> are subclasses of \<open>ValueError\<close>\<close>
  "isinstance_ValueError JSONDecodeError = True"
| "isinstance_ValueError ValueError = True"
| "isinstance_ValueError ValidationError = True"
| "isinstance_ValueError _ = False"

text \<open>
  A Python \<open>float\<close> is a finite number, an infinity or a NaN. The finite values are
  modelled by the real number they stand for: rounding to binary64 is left out, the
  overflow to an infinity is kept.
\<close>

datatype pyfloat = Fin real | PosInf | NegInf | NaN

fun float_less :: "pyfloat \<Rightarrow> pyfloat \<Rightarrow> bool" where
  \<comment> \<open>\<open>a < b\<close> on floats: every comparison with a NaN is false\<close>
  "float_less NaN _ = False"
| "float_less _ NaN = False"
| "float_less (Fin a) (Fin b) = (a < b)"
| "float_less (Fin a) PosInf = True"
| "float_less (Fin a) NegInf = False"
| "float_less PosInf _ = False"
| "float_less NegInf NegInf = False"
| "float_less NegInf _ = True"

definition float_min :: "pyfloat \<Rightarrow> pyfloat \<Rightarrow> pyfloat" where
  \<comment> \<open>the builtin \<open>min(a, b)\<close>: the first argument unless the second is smaller\<close>
  "float_min a b = (if float_less b a then b else a)"

definition float_max :: "pyfloat \<Rightarrow> pyfloat \<Rightarrow> pyfloat" where
  \<comment> \<open>the builtin \<open>max(a, b)\<close>: the first argument unless the second is greater\<close>
  "float_max a b = (if float_less a b then b else a)"

definition float_overflows :: "real \<Rightarrow> bool" where
  \<comment> \<open>beyond the largest binary64 value, halfway to \<open>2 ^ 1024\<close>\<close>
  "float_overflows x = (\<bar>x\<bar> \<ge> 2 ^ 1024 - 2 ^ 970)"

datatype pyvalue =
    VNone | VBool bool | VInt int | VFloat pyfloat | VStr string
  | VList "pyvalue list" | VDict "(string \<times> pyvalue) list"

text \<open>
  The builtins whose full behaviour lies outside the repository are parameters of the
  model: \<open>json.loads\<close>, and the conversions \<open>float(s)\<close> and \<open>int(s)\<close> of a string, which
  raise \<open>ValueError\<close> (here \<open>None\<close>) on a string they do not accept.
\<close>

record builtins =
  json_loads :: "string \<Rightarrow> exn + pyvalue"
  float_of_str :: "string \<Rightarrow> pyfloat option"
  int_of_str :: "string \<Rightarrow> int option"

definition py_float :: "builtins \<Rightarrow> pyvalue \<Rightarrow> exn + pyfloat" where
  \<comment> \<open>the builtin \<open>float(x)\<close>\<close>
  "py_float py x =
     (case x of
        VFloat f \<Rightarrow> Inr f
      | VInt i \<Rightarrow> if float_overflows (real_of_int i) then Inl OverflowError
                  else Inr (Fin (real_of_int i))
      | VBool b \<Rightarrow> Inr (Fin (if b then 1 else 0))
      | VStr s \<Rightarrow> (case float_of_str py s of Some f \<Rightarrow> Inr f | None \<Rightarrow> Inl ValueError)
      | _ \<Rightarrow> Inl TypeError)"

definition py_trunc :: "real \<Rightarrow> int" where
  "py_trunc r = (if r \<ge> 0 then \<lfloor>r\<rfloor> else \<lceil>r\<rceil>)"

definition py_int :: "builtins \<Rightarrow> pyvalue \<Rightarrow> exn + int" where
  \<comment> \<open>the builtin \<open>int(x)\<close>\<close>
  "py_int py x =
     (case x of
        VInt i \<Rightarrow> Inr i
      | VBool b \<Rightarrow> Inr (if b then 1 else 0)
      | VFloat f \<Rightarrow> (case f of Fin r \<Rightarrow> Inr (py_trunc r) | NaN \<Rightarrow> Inl ValueError
                      | _ \<Rightarrow> Inl OverflowError)
      | VStr s \<Rightarrow> (case int_of_str py s of Some i \<Rightarrow> Inr i | None \<Rightarrow> Inl ValueError)
      | _ \<Rightarrow> Inl TypeError)"

definition dict_get :: "pyvalue \<Rightarrow> string \<Rightarrow> pyvalue \<Rightarrow> exn + pyvalue" where
  \<comment> \<open>\<open>data.get(key, default)\<close>: only a dict has the method\<close>
  "dict_get data key dflt =
     (case data of
        VDict d \<Rightarrow> (case map_of d key of Some v \<Rightarrow> Inr v | None \<Rightarrow> Inr dflt)
      | _ \<Rightarrow> Inl AttributeError)"

definition str_lower :: "pyvalue \<Rightarrow> exn + string" where
  \<comment> \<open>\<open>x.lower()\<close>: only a string has the method\<close>
  "str_lower x = (case x of VStr s \<Rightarrow> Inr (lower s) | _ \<Rightarrow> Inl AttributeError)"

definition bind :: "exn + 'a \<Rightarrow> ('a \<Rightarrow> exn + 'b) \<Rightarrow> exn + 'b" where
  \<comment> \<open>sequencing: an exception ends the block\<close>
  "bind r f = (case r of Inl e \<Rightarrow> Inl e | Inr x \<Rightarrow> f x)"

section \<open>Interpreting the model's reply (app/services/classifier.py)\<close>

record classification_data =
  classification :: string
  confidence :: pyfloat
  pontuation :: int

definition clean_reply :: "string \<Rightarrow> string" where
  \<comment> \<open>the first statements of the \<open>try\<close> block: the value of \<open>cleaned\<close> given to
      \<open>json.loads\<close>\<close>
  "clean_reply response =
     (let cleaned = strip response
      in if startswith cleaned ''```''
         then re_sub fence_close_pattern (re_sub fence_open_pattern cleaned)
         else cleaned)"

definition extract_try :: "builtins \<Rightarrow> string \<Rightarrow> exn + classification_data" where
  \<comment> \<open>the \<open>try\<close> block of \<open>extract_classification_data\<close>\<close>
  "extract_try py response =
     (let cleaned = clean_reply response
      in bind (json_loads py cleaned) (\<lambda>data.
         bind (dict_get data ''classification'' (VStr ''Improdutivo'')) (\<lambda>classification.
         bind (dict_get data ''confidence'' (VFloat (Fin 0.5))) (\<lambda>c.
         bind (py_float py c) (\<lambda>confidence.
         bind (dict_get data ''pontuation'' (VInt 5)) (\<lambda>p.
         bind (py_int py p) (\<lambda>pontuation.
         bind (str_lower classification) (\<lambda>lowered.
         bind (if contains ''produtivo'' lowered
               then bind (str_lower classification) (\<lambda>lowered.
                      Inr (if contains ''improdutivo'' lowered then ''Improdutivo''
                           else ''Produtivo''))
               else Inr ''Improdutivo'') (\<lambda>classification.
         let confidence = float_max (Fin 0.0) (float_min (Fin 1.0) confidence);
             pontuation = max 0 (min 10 pontuation)
         in Inr \<lparr>classification = classification, confidence = confidence,
                  pontuation = pontuation\<rparr>)))))))))"

definition extract_except :: "string \<Rightarrow> classification_data" where
  \<comment> \<open>the \<open>except\<close> block: the fallback on the text of the reply\<close>
  "extract_except response =
     (let response_lower = lower response
      in if contains ''produtivo'' response_lower \<and> \<not> contains ''improdutivo'' response_lower
         then \<lparr>classification = ''Produtivo'', confidence = Fin 0.5, pontuation = 7\<rparr>
         else \<lparr>classification = ''Improdutivo'', confidence = Fin 0.5, pontuation = 3\<rparr>)"

definition extract_classification_data :: "builtins \<Rightarrow> string \<Rightarrow> exn + classification_data" where
  \<comment> \<open>\<open>except (json.JSONDecodeError, ValueError, KeyError)\<close>: any other exception leaves
      the function\<close>
  "extract_classification_data py response =
     (case extract_try py response of
        Inr result \<Rightarrow> Inr result
      | Inl e \<Rightarrow> if isinstance_ValueError e \<or> e = KeyError then Inr (extract_except response)
                 else Inl e)"


section \<open>A reference decoder for JSON\<close>

text \<open>
  The examples are evaluated with this decoder, which follows \<open>json.decoder\<close> of the
  Python library on strings of Latin-1 code points: a \<open>\uXXXX\<close> escape beyond U+00FF
  has no image in the string model and is rejected here. The fuel bounds the nesting;
  every call consumes a character, so the length of the text is enough.
\<close>

definition json_ws :: "char \<Rightarrow> bool" where
  "json_ws c = (c \<in> set [CHR 0x20, CHR 0x09, CHR 0x0A, CHR 0x0D])"

definition isdigit :: "char \<Rightarrow> bool" where
  "isdigit c = (c \<in> set ''0123456789'')"

definition digit_value :: "char \<Rightarrow> nat" where
  "digit_value c = of_char c - 48"

definition nat_of_digits :: "string \<Rightarrow> nat" where
  "nat_of_digits ds = foldl (\<lambda>n c. 10 * n + digit_value c) 0 ds"

definition hex_value :: "char \<Rightarrow> nat option" where
  "hex_value c = map_of (zip ''0123456789abcdefABCDEF''
     [0, 1, 2, 3, 4, 5, 6, 7, 8, 9, 10, 11, 12, 13, 14, 15, 10, 11, 12, 13, 14, 15]) c"

definition hex4 :: "string \<Rightarrow> nat option" where
  "hex4 s = (case map hex_value s of
     [Some a, Some b, Some c, Some d] \<Rightarrow> Some (((a * 16 + b) * 16 + c) * 16 + d)
   | _ \<Rightarrow> None)"

definition escapes :: "(char \<times> char) list" where
  "escapes = [(CHR 0x22, CHR 0x22), (CHR 0x5C, CHR 0x5C), (CHR ''/'', CHR ''/''),
              (CHR ''b'', CHR 0x08), (CHR ''f'', CHR 0x0C), (CHR ''n'', CHR 0x0A),
              (CHR ''r'', CHR 0x0D), (CHR ''t'', CHR 0x09)]"

fun scanstring :: "string \<Rightarrow> (string \<times> string) option" where
  \<comment> \<open>the text behind an opening quote: the decoded string and the rest behind the
      closing quote; control characters are refused (strict mode)\<close>
  "scanstring [] = None"
| "scanstring (c # cs) =
     (if c = CHR 0x22 then Some ([], cs)
      else if c = CHR 0x5C then
        (case cs of
           [] \<Rightarrow> None
         | e # r \<Rightarrow>
             if e = CHR ''u'' then
               (case hex4 (take 4 r) of
                  Some n \<Rightarrow> if n < 256
                            then map_option (\<lambda>(t, rest). (char_of n # t, rest)) (scanstring (drop 4 r))
                            else None
                | None \<Rightarrow> None)
             else
               (case map_of escapes e of
                  Some x \<Rightarrow> map_option (\<lambda>(t, rest). (x # t, rest)) (scanstring r)
                | None \<Rightarrow> None))
      else if (of_char c :: nat) < 32 then None
      else map_option (\<lambda>(t, rest). (c # t, rest)) (scanstring cs))"

definition float_of_decimal :: "bool \<Rightarrow> nat \<Rightarrow> int \<Rightarrow> pyfloat" where
  \<comment> \<open>the float of the literal \<open>\<plusminus> m \<times> 10 ^ e\<close>\<close>
  "float_of_decimal neg m e =
     (let x = (if e \<ge> 0 then real m * 10 ^ nat e else real m / 10 ^ nat (- e))
      in if float_overflows x then (if neg then NegInf else PosInf)
         else Fin (if neg then - x else x))"

definition scan_number :: "string \<Rightarrow> (pyvalue \<times> string) option" where
  \<comment> \<open>\<open>NUMBER_RE = (-?(?:0|[1-9]\d*))(\.\d+)?([eE][-+]?\d+)?\<close>\<close>
  "scan_number s =
     (let neg = (s \<noteq> [] \<and> hd s = CHR ''-'');
          r = (if neg then tl s else s)
      in case r of
           [] \<Rightarrow> None
         | d # ds \<Rightarrow>
             if \<not> isdigit d then None
             else
               let ipart = (if d = CHR ''0'' then [d] else d # takeWhile isdigit ds);
                   r1 = drop (length ipart) r;
                   frac = (case r1 of
                             p # x # _ \<Rightarrow> if p = CHR ''.'' \<and> isdigit x
                                          then takeWhile isdigit (tl r1) else []
                           | _ \<Rightarrow> []);
                   r2 = (if frac = [] then r1 else drop (Suc (length frac)) r1);
                   signed = (case r2 of
                               e # x # _ \<Rightarrow> (e = CHR ''e'' \<or> e = CHR ''E'')
                                            \<and> (x = CHR ''-'' \<or> x = CHR ''+'')
                             | _ \<Rightarrow> False);
                   eneg = (signed \<and> hd (tl r2) = CHR ''-'');
                   edigits = (case r2 of
                                e # x \<Rightarrow> if e = CHR ''e'' \<or> e = CHR ''E''
                                        then takeWhile isdigit (if signed then tl x else x)
                                        else []
                              | _ \<Rightarrow> []);
                   r3 = (if edigits = [] then r2
                         else drop (Suc (length edigits) + (if signed then 1 else 0)) r2)
               in if frac = [] \<and> edigits = []
                  then Some (VInt ((if neg then -1 else 1) * int (nat_of_digits ipart)), r1)
                  else Some (VFloat (float_of_decimal neg (nat_of_digits (ipart @ frac))
                               ((if eneg then -1 else 1) * int (nat_of_digits edigits)
                                - int (length frac))), r3))"

definition dict_setitem :: "(string \<times> pyvalue) list \<Rightarrow> string \<Rightarrow> pyvalue \<Rightarrow> (string \<times> pyvalue) list" where
  \<comment> \<open>\<open>d[key] = value\<close>: a key that is present keeps its place and takes the new value\<close>
  "dict_setitem d key v =
     (if key \<in> fst ` set d then map (\<lambda>(k, x). if k = key then (k, v) else (k, x)) d
      else d @ [(key, v)])"

fun scan_once :: "nat \<Rightarrow> string \<Rightarrow> (pyvalue \<times> string) option"
  and scan_object :: "nat \<Rightarrow> (string \<times> pyvalue) list \<Rightarrow> string \<Rightarrow> (pyvalue \<times> string) option"
  and scan_array :: "nat \<Rightarrow> pyvalue list \<Rightarrow> string \<Rightarrow> (pyvalue \<times> string) option"
where
  "scan_once 0 s = None"
| "scan_once (Suc fuel) s =
     (case s of
        [] \<Rightarrow> None
      | c # cs \<Rightarrow>
          if c = CHR 0x22 then map_option (\<lambda>(t, rest). (VStr t, rest)) (scanstring cs)
          else if c = CHR ''{'' then
            (case dropWhile json_ws cs of
               [] \<Rightarrow> None
             | q # r \<Rightarrow> if q = CHR ''}'' then Some (VDict [], r)
                        else if q = CHR 0x22 then scan_object fuel [] r
                        else None)
          else if c = CHR ''['' then
            (case dropWhile json_ws cs of
               [] \<Rightarrow> None
             | q # r \<Rightarrow> if q = CHR '']'' then Some (VList [], r)
                        else scan_array fuel [] (q # r))
          else if prefix ''null'' s then Some (VNone, drop 4 s)
          else if prefix ''true'' s then Some (VBool True, drop 4 s)
          else if prefix ''false'' s then Some (VBool False, drop 5 s)
          else (case scan_number s of
                  Some r \<Rightarrow> Some r
                | None \<Rightarrow>
                    if prefix ''NaN'' s then Some (VFloat NaN, drop 3 s)
                    else if prefix ''Infinity'' s then Some (VFloat PosInf, drop 8 s)
                    else if prefix ''-Infinity'' s then Some (VFloat NegInf, drop 9 s)
                    else None))"
| "scan_object 0 pairs s = None"
| "scan_object (Suc fuel) pairs s =
     \<comment> \<open>\<open>s\<close> stands behind the opening quote of a key\<close>
     (case scanstring s of
        None \<Rightarrow> None
      | Some (key, r) \<Rightarrow>
          (case dropWhile json_ws r of
             [] \<Rightarrow> None
           | colon # r \<Rightarrow>
               if colon \<noteq> CHR '':'' then None
               else
                 (case scan_once fuel (dropWhile json_ws r) of
                    None \<Rightarrow> None
                  | Some (v, r) \<Rightarrow>
                      (case dropWhile json_ws r of
                         [] \<Rightarrow> None
                       | d # r \<Rightarrow>
                           if d = CHR ''}'' then Some (VDict (dict_setitem pairs key v), r)
                           else if d \<noteq> CHR '','' then None
                           else
                             (case dropWhile json_ws r of
                                [] \<Rightarrow> None
                              | q # r \<Rightarrow>
                                  if q = CHR 0x22
                                  then scan_object fuel (dict_setitem pairs key v) r
                                  else None)))))"
| "scan_array 0 vs s = None"
| "scan_array (Suc fuel) vs s =
     (case scan_once fuel s of
        None \<Rightarrow> None
      | Some (v, r) \<Rightarrow>
          (case dropWhile json_ws r of
             [] \<Rightarrow> None
           | d # r \<Rightarrow>
               if d = CHR '']'' then Some (VList (vs @ [v]), r)
               else if d \<noteq> CHR '','' then None
               else scan_array fuel (vs @ [v]) (dropWhile json_ws r)))"

definition reference_json_loads :: "string \<Rightarrow> exn + pyvalue" where
  \<comment> \<open>\<open>json.loads(s)\<close>: one value between optional whitespace, and nothing behind it\<close>
  "reference_json_loads s =
     (case scan_once (Suc (length s)) (dropWhile json_ws s) of
        None \<Rightarrow> Inl JSONDecodeError
      | Some (v, r) \<Rightarrow> if dropWhile json_ws r = [] then Inr v else Inl JSONDecodeError)"

definition reference_number_str :: "string \<Rightarrow> (pyvalue \<times> string) option" where
  \<comment> \<open>a decimal literal with an optional sign between optional whitespace\<close>
  "reference_number_str s =
     (let t = strip s;
          t = (if t \<noteq> [] \<and> hd t = CHR ''+'' then tl t else t)
      in if t \<noteq> [] \<and> hd t = CHR ''-'' \<and> tl t \<noteq> [] \<and> hd (tl t) = CHR ''-'' then None
         else scan_number t)"

definition reference_builtins :: builtins where
  \<comment> \<open>the conversions of strings accept the plain decimal literals (Python accepts more:
      underscores, \<open>inf\<close>, \<open>nan\<close>, leading zeros)\<close>
  "reference_builtins =
     \<lparr> json_loads = reference_json_loads,
       float_of_str = (\<lambda>s. case reference_number_str s of
                          Some (VInt i, []) \<Rightarrow> Some (Fin (real_of_int i))
                        | Some (VFloat f, []) \<Rightarrow> Some f
                        | _ \<Rightarrow> None),
       int_of_str = (\<lambda>s. case reference_number_str s of
                        Some (VInt i, []) \<Rightarrow> Some i
                      | _ \<Rightarrow> None) \<rparr>"


section \<open>The completion client (app/services/openai_client.py)\<close>

record settings =
  OPENAI_API_KEY :: string
  OPENAI_MODEL :: string
  OPENAI_TIMEOUT :: int
  OPENAI_MAX_RETRIES :: int
  CACHE_TTL :: int
  CACHE_MAX_SIZE :: int

record OpenAIClient =
  api_key :: string
  model :: string
  timeout :: int
  max_retries :: int

definition OpenAIClient_init :: "settings \<Rightarrow> OpenAIClient" where
  "OpenAIClient_init st =
     \<lparr> api_key = OPENAI_API_KEY st, model = OPENAI_MODEL st,
       timeout = OPENAI_TIMEOUT st, max_retries = OPENAI_MAX_RETRIES st \<rparr>"

text \<open>
  The remote service is outside the repository. One call of
  \<open>client.chat.completions.create\<close> is one invocation of the backend, which is given the
  number of invocations made before it and the request, and returns a completion or
  raises. The request carries the credential and the timeout the library client was
  built with.
\<close>

record message =
  role :: string
  content :: string

record request =
  request_api_key :: string
  request_timeout :: int
  request_model :: string
  request_messages :: "message list"
  request_temperature :: real
  request_max_tokens :: nat

record usage =
  prompt_tokens :: nat
  completion_tokens :: nat

record completion =
  choices :: "string option list"  \<comment> \<open>\<open>message.content\<close> of each choice\<close>
  completion_usage :: "usage option"

datatype outcome = Returns completion | Raises exn

type_synonym backend = "nat \<Rightarrow> request \<Rightarrow> outcome"

definition completion_request ::
  "OpenAIClient \<Rightarrow> message list \<Rightarrow> real \<Rightarrow> nat \<Rightarrow> string option \<Rightarrow> request" where
  \<comment> \<open>the arguments of \<open>self.client.chat.completions.create\<close>, with \<open>model or self.model\<close>\<close>
  "completion_request self msgs temperature max_tokens model_opt =
     \<lparr> request_api_key = api_key self, request_timeout = timeout self,
       request_model = (case model_opt of
                          Some m \<Rightarrow> if m \<noteq> [] then m else model self
                        | None \<Rightarrow> model self),
       request_messages = msgs, request_temperature = temperature,
       request_max_tokens = max_tokens \<rparr>"

definition chat_completion_body ::
  "backend \<Rightarrow> OpenAIClient \<Rightarrow> message list \<Rightarrow> real \<Rightarrow> nat \<Rightarrow> string option \<Rightarrow> nat \<Rightarrow> exn + string" where
  \<comment> \<open>the body of \<open>chat_completion\<close>, one attempt: both \<open>except\<close> clauses re-raise. The
      logging reads \<open>response.usage\<close> before the content is returned.\<close>
  "chat_completion_body api self msgs temperature max_tokens model_opt calls =
     (case api calls (completion_request self msgs temperature max_tokens model_opt) of
        Raises e \<Rightarrow> Inl e
      | Returns response \<Rightarrow>
          bind (case choices response of [] \<Rightarrow> Inl IndexError | c # _ \<Rightarrow> Inr c) (\<lambda>content.
          bind (case completion_usage response of None \<Rightarrow> Inl AttributeError
                | Some u \<Rightarrow> Inr u) (\<lambda>u.
          Inr (case content of
                 Some s \<Rightarrow> if s \<noteq> [] then strip s else []
               | None \<Rightarrow> []))))"

definition retry_if_exception_type :: "exn \<Rightarrow> bool" where
  \<comment> \<open>\<open>(APIConnectionError, RateLimitError)\<close>; \<open>APITimeoutError\<close> is a subclass of the first\<close>
  "retry_if_exception_type e = (e = APIConnectionError \<or> e = APITimeoutError \<or> e = RateLimitError)"

definition stop_after_attempt :: nat where
  \<comment> \<open>the literal of the decorator, \<open>stop_after_attempt(3)\<close>\<close>
  "stop_after_attempt = 3"

function retry :: "nat \<Rightarrow> (nat \<Rightarrow> exn + 'a) \<Rightarrow> nat \<Rightarrow> nat \<Rightarrow> (exn + 'a) \<times> nat" where
  \<comment> \<open>tenacity's loop around a function \<open>f\<close>: \<open>attempt_number\<close> starts at 1; the second
      component counts the invocations of the backend. The waiting between two attempts
      (\<open>wait_exponential\<close>) changes no result and is left out.\<close>
  "retry stop f attempt_number calls =
     (case f calls of
        Inr x \<Rightarrow> (Inr x, Suc calls)
      | Inl e \<Rightarrow>
          if \<not> retry_if_exception_type e then (Inl e, Suc calls)
          else if attempt_number \<ge> stop then (Inl RetryError, Suc calls)
          else retry stop f (Suc attempt_number) (Suc calls))"
  by pat_completeness auto
termination
  by (relation "measure (\<lambda>(stop, f, attempt_number, calls). stop - attempt_number)") auto

declare retry.simps [simp del]

definition chat_completion ::
  "backend \<Rightarrow> OpenAIClient \<Rightarrow> message list \<Rightarrow> real \<Rightarrow> nat \<Rightarrow> string option \<Rightarrow> nat \<Rightarrow> (exn + string) \<times> nat" where
  "chat_completion api self msgs temperature max_tokens model_opt calls =
     retry stop_after_attempt (chat_completion_body api self msgs temperature max_tokens model_opt)
       1 calls"

definition is_configured :: "OpenAIClient \<Rightarrow> bool" where
  \<comment> \<open>\<open>bool(self.api_key)\<close>\<close>
  "is_configured self = (api_key self \<noteq> [])"

section \<open>Prompts and services\<close>

function str_of_nat :: "nat \<Rightarrow> string" where
  "str_of_nat n = (if n < 10 then [char_of (48 + n)]
                   else str_of_nat (n div 10) @ [char_of (48 + n mod 10)])"
  by pat_completeness auto
termination
  by (relation "measure id") auto

declare str_of_nat.simps [simp del]

definition str_of_int :: "int \<Rightarrow> string" where
  \<comment> \<open>\<open>str(i)\<close> of an integer\<close>
  "str_of_int i = (if i < 0 then ''-'' @ str_of_nat (nat (- i)) else str_of_nat (nat i))"

definition CLASSIFICATION_PROMPT_format :: "string \<Rightarrow> string" where
  \<comment> \<open>\<open>CLASSIFICATION_PROMPT.format(email_content=email_content)\<close>\<close>
  "CLASSIFICATION_PROMPT_format email_content =
     ''Classifique o email abaixo como PRODUTIVO ou IMPRODUTIVO.'' @ [CHR 0x0A] @
     [CHR 0x0A] @
     ''Crit'' @ [CHR 0xE9] @ ''rios:'' @ [CHR 0x0A] @
     ''- PRODUTIVO: exige a'' @ [CHR 0xE7] @ [CHR 0xE3] @ ''o, resposta, an'' @ [CHR 0xE1] @ ''lise, suporte ou acompanhamento.'' @ [CHR 0x0A] @
     ''- IMPRODUTIVO: agradecimentos, felicita'' @ [CHR 0xE7] @ [CHR 0xF5] @ ''es, mensagens sociais, sem a'' @ [CHR 0xE7] @ [CHR 0xE3] @ ''o necess'' @ [CHR 0xE1] @ ''ria.'' @ [CHR 0x0A] @
     [CHR 0x0A] @
     ''Email:'' @ [CHR 0x0A] @
     [CHR 0x22] @
     email_content @
     [CHR 0x22] @ [CHR 0x0A] @
     [CHR 0x0A] @
     ''Responda no seguinte formato JSON:'' @ [CHR 0x0A] @
     ''{'' @ [CHR 0x22] @ ''classification'' @ [CHR 0x22] @ '': '' @ [CHR 0x22] @ ''Produtivo'' @ [CHR 0x22] @ '' ou '' @ [CHR 0x22] @ ''Improdutivo'' @ [CHR 0x22] @ '', '' @ [CHR 0x22] @ ''confidence'' @ [CHR 0x22] @ '': valor entre 0.0 e 1.0, '' @ [CHR 0x22] @ ''pontuation'' @ [CHR 0x22] @ '': valor inteiro de 0 a 10}'' @ [CHR 0x0A] @
     [CHR 0x0A] @
     ''Onde:'' @ [CHR 0x0A] @
     ''- classification: a classifica'' @ [CHR 0xE7] @ [CHR 0xE3] @ ''o do email'' @ [CHR 0x0A] @
     ''- confidence: seu n'' @ [CHR 0xED] @ ''vel de confian'' @ [CHR 0xE7] @ ''a na classifica'' @ [CHR 0xE7] @ [CHR 0xE3] @ ''o (0.0 = sem confian'' @ [CHR 0xE7] @ ''a, 1.0 = certeza absoluta)'' @ [CHR 0x0A] @
     ''- pontuation: pontua'' @ [CHR 0xE7] @ [CHR 0xE3] @ ''o de produtividade (0 = totalmente improdutivo, 10 = extremamente produtivo)'' @ [CHR 0x0A] @
     [CHR 0x0A] @
     ''Responda APENAS com o JSON, sem texto adicional.''"

definition RESPONSE_PROMPT_TEMPLATE_format :: "string \<Rightarrow> int \<Rightarrow> string \<Rightarrow> string" where
  \<comment> \<open>\<open>RESPONSE_PROMPT_TEMPLATE.format(classification=..., pontuation=..., email_content=...)\<close>\<close>
  "RESPONSE_PROMPT_TEMPLATE_format classification' pontuation' email_content =
     ''Voc'' @ [CHR 0xEA] @ '' '' @ [CHR 0xE9] @ '' um assistente corporativo de uma empresa do setor financeiro.'' @ [CHR 0x0A] @
     [CHR 0x0A] @
     ''Crie uma resposta educada, profissional, clara e objetiva para o email abaixo.'' @ [CHR 0x0A] @
     [CHR 0x0A] @
     ''A resposta deve:'' @ [CHR 0x0A] @
     ''- Ser cordial e profissional'' @ [CHR 0x0A] @
     ''- Ser clara e direta'' @ [CHR 0x0A] @
     ''- Ter no m'' @ [CHR 0xE1] @ ''ximo 150 palavras'' @ [CHR 0x0A] @
     ''- Usar linguagem formal em portugu'' @ [CHR 0xEA] @ ''s brasileiro'' @ [CHR 0x0A] @
     ''- Incluir sauda'' @ [CHR 0xE7] @ [CHR 0xE3] @ ''o inicial e despedida'' @ [CHR 0x0A] @
     [CHR 0x0A] @
     ''Categoria do email: '' @
     classification' @
     [CHR 0x0A] @
     ''Pontua'' @ [CHR 0xE7] @ [CHR 0xE3] @ ''o de produtividade: '' @
     str_of_int pontuation' @
     ''/10'' @ [CHR 0x0A] @
     [CHR 0x0A] @
     ''Email original:'' @ [CHR 0x0A] @
     [CHR 0x22] @
     email_content @
     [CHR 0x22] @ [CHR 0x0A] @
     [CHR 0x0A] @
     ''Gere apenas a resposta, sem coment'' @ [CHR 0xE1] @ ''rios adicionais.''"

definition classifier_system_message :: string where
  "classifier_system_message =
     ''Voc'' @ [CHR 0xEA] @ '' '' @ [CHR 0xE9] @ '' um assistente especializado em an'' @ [CHR 0xE1] @ ''lise de emails corporativos.''"

definition generator_system_message :: string where
  "generator_system_message =
     ''Voc'' @ [CHR 0xEA] @ '' '' @ [CHR 0xE9] @ '' um assistente corporativo experiente do setor financeiro. Suas respostas s'' @ [CHR 0xE3] @ ''o sempre profissionais, cordiais e objetivas. Voc'' @ [CHR 0xEA] @ '' escreve em portugu'' @ [CHR 0xEA] @ ''s brasileiro formal.''"

definition custom_instructions_header :: string where
  "custom_instructions_header =
     [CHR 0x0A] @
     [CHR 0x0A] @
     ''Instru'' @ [CHR 0xE7] @ [CHR 0xF5] @ ''es adicionais: ''"

text \<open>
  What the process is started with: the client built from the settings, the remote
  backend, the builtins, the spaCy globals and the builtin \<open>hash\<close> on strings, a fixed
  function within one process.
\<close>

record env =
  client :: OpenAIClient
  api :: backend
  python :: builtins
  nlp_globals :: nlp_module
  hash :: "string \<Rightarrow> int"

record classify_result = classification_data +
  preprocessed_text :: string

definition classify_email :: "env \<Rightarrow> string \<Rightarrow> bool \<Rightarrow> nat \<Rightarrow> (exn + classify_result) \<times> nat" where
  "classify_email e email_content use_preprocessing calls =
     (let preprocessed = (if use_preprocessing
                          then preprocess_text (nlp_globals e) email_content True else []);
          prompt = CLASSIFICATION_PROMPT_format email_content;
          messages = [\<lparr>role = ''system'', content = classifier_system_message\<rparr>,
                      \<lparr>role = ''user'', content = prompt\<rparr>];
          (response, calls) = chat_completion (api e) (client e) messages 0.3 200 None calls
      in case response of
           Inl x \<Rightarrow> (Inl x, calls)
         | Inr response \<Rightarrow>
             (case extract_classification_data (python e) response of
                Inl x \<Rightarrow> (Inl x, calls)
              | Inr result \<Rightarrow>
                  (Inr \<lparr>classification = classification result, confidence = confidence result,
                        pontuation = pontuation result, preprocessed_text = preprocessed\<rparr>,
                   calls)))"

definition generate_response ::
  "env \<Rightarrow> string \<Rightarrow> string \<Rightarrow> int \<Rightarrow> string option \<Rightarrow> nat \<Rightarrow> (exn + string) \<times> nat" where
  "generate_response e email_content classification' pontuation' custom_instructions calls =
     (let prompt = RESPONSE_PROMPT_TEMPLATE_format classification' pontuation' email_content;
          prompt = (case custom_instructions of
                      Some ci \<Rightarrow> if ci \<noteq> [] then prompt @ custom_instructions_header @ ci
                                 else prompt
                    | None \<Rightarrow> prompt);
          messages = [\<lparr>role = ''system'', content = generator_system_message\<rparr>,
                      \<lparr>role = ''user'', content = prompt\<rparr>];
          (response, calls) = chat_completion (api e) (client e) messages 0.7 500 None calls
      in case response of
           Inl x \<Rightarrow> (Inl x, calls)
         | Inr response \<Rightarrow> (Inr (strip response), calls))"

section \<open>The result cache\<close>

text \<open>
  \<open>cachetools.TTLCache\<close> is a library outside the repository. Its entries are kept here
  from the least to the most recently used, each with the time it expires at; the timer
  of the cache is read by the caller and passed in.
\<close>

record 'v TTLCache =
  maxsize :: int
  ttl :: int
  links :: "(string \<times> 'v \<times> int) list"

definition TTLCache_init :: "int \<Rightarrow> int \<Rightarrow> 'v TTLCache" where
  "TTLCache_init m t = \<lparr>maxsize = m, ttl = t, links = []\<rparr>"

definition cache_contains :: "int \<Rightarrow> 'v TTLCache \<Rightarrow> string \<Rightarrow> bool" where
  \<comment> \<open>\<open>key in cache\<close>: an expired entry is absent, whether or not it was removed yet\<close>
  "cache_contains now c key =
     (case map_of (links c) key of Some (v, expires) \<Rightarrow> now < expires | None \<Rightarrow> False)"

definition cache_getitem :: "int \<Rightarrow> 'v TTLCache \<Rightarrow> string \<Rightarrow> exn + ('v \<times> 'v TTLCache)" where
  \<comment> \<open>\<open>cache[key]\<close>: a hit makes the entry the most recently used\<close>
  "cache_getitem now c key =
     (case map_of (links c) key of
        None \<Rightarrow> Inl KeyError
      | Some (v, expires) \<Rightarrow>
          if now < expires
          then Inr (v, c\<lparr>links := filter (\<lambda>(k, _). k \<noteq> key) (links c) @ [(key, v, expires)]\<rparr>)
          else Inl KeyError)"

definition cache_setitem :: "int \<Rightarrow> 'v TTLCache \<Rightarrow> string \<Rightarrow> 'v \<Rightarrow> exn + 'v TTLCache" where
  \<comment> \<open>\<open>cache[key] = value\<close>: the expired entries go first; an item larger than the cache is
      refused; a new key evicts the least recently used entries until there is room\<close>
  "cache_setitem now c key v =
     (let live = filter (\<lambda>(k, _, expires). now < expires) (links c)
      in if 1 > maxsize c then Inl ValueError
         else
           let kept = (if key \<in> fst ` set live then live
                       else drop (nat (int (length live) + 1 - maxsize c)) live)
           in Inr (c\<lparr>links := filter (\<lambda>(k, _). k \<noteq> key) kept @ [(key, v, now + ttl c)]\<rparr>))"

section \<open>The classification entry point (app/api/routes.py)\<close>

record EmailClassifyResponse = classification_data +
  suggested_reply :: string

record EmailHistoryItem = EmailClassifyResponse +
  item_id :: string
  email_content :: string
  created_at :: int

datatype failure =
    HTTPException nat "exn option"
      \<comment> \<open>status 503 with the detail that the service is not configured, or status 500
          with the detail \<open>"Erro ao processar email: " + str(e)\<close> for the exception \<open>e\<close>\<close>
  | Unhandled exn  \<comment> \<open>an exception that leaves the endpoint\<close>

definition valid_fields :: "string \<Rightarrow> int \<Rightarrow> pyfloat \<Rightarrow> bool" where
  \<comment> \<open>the field constraints of the pydantic models: a \<open>Literal\<close>, \<open>ge=0, le=10\<close> and
      \<open>ge=0.0, le=1.0\<close>\<close>
  "valid_fields c p f =
     ((c = ''Produtivo'' \<or> c = ''Improdutivo'') \<and> 0 \<le> p \<and> p \<le> 10
      \<and> (case f of Fin r \<Rightarrow> 0 \<le> r \<and> r \<le> 1 | _ \<Rightarrow> False))"

definition EmailClassifyResponse_init ::
  "string \<Rightarrow> int \<Rightarrow> string \<Rightarrow> pyfloat \<Rightarrow> exn + EmailClassifyResponse" where
  "EmailClassifyResponse_init c p reply f =
     (if valid_fields c p f
      then Inr \<lparr>classification = c, confidence = f, pontuation = p, suggested_reply = reply\<rparr>
      else Inl ValidationError)"

definition EmailHistoryItem_init ::
  "string \<Rightarrow> string \<Rightarrow> string \<Rightarrow> int \<Rightarrow> string \<Rightarrow> pyfloat \<Rightarrow> int \<Rightarrow> exn + EmailHistoryItem" where
  "EmailHistoryItem_init i text c p reply f created =
     (if valid_fields c p f
      then Inr \<lparr>classification = c, confidence = f, pontuation = p, suggested_reply = reply,
                item_id = i, email_content = text, created_at = created\<rparr>
      else Inl ValidationError)"

record app_state =
  result_cache :: "EmailClassifyResponse TTLCache"
  email_history :: "EmailHistoryItem list"
  api_calls :: nat  \<comment> \<open>the invocations of the backend so far\<close>

text \<open>What one request reads from its surroundings: the timer of the cache at the lookup
  and at the insertion, \<open>str(uuid.uuid4())\<close> and \<open>datetime.now()\<close>.\<close>

record request_context =
  lookup_time :: int
  insert_time :: int
  uuid4 :: string
  datetime_now :: int

definition get_cache_key :: "(string \<Rightarrow> int) \<Rightarrow> string \<Rightarrow> string" where
  \<comment> \<open>\<open>str(hash(email_content))\<close>\<close>
  "get_cache_key h email_content' = str_of_int (h email_content')"

definition processing_error :: "exn \<Rightarrow> app_state \<Rightarrow> nat \<Rightarrow> (failure + EmailClassifyResponse) \<times> app_state" where
  \<comment> \<open>\<open>except Exception as e: raise HTTPException(status_code=500, ...)\<close>\<close>
  "processing_error x s calls = (Inl (HTTPException 500 (Some x)), s\<lparr>api_calls := calls\<rparr>)"

definition classify_email_endpoint ::
  "env \<Rightarrow> request_context \<Rightarrow> string \<Rightarrow> app_state \<Rightarrow> (failure + EmailClassifyResponse) \<times> app_state" where
  "classify_email_endpoint e ctx request_email_content s =
     (if \<not> is_configured (client e) then (Inl (HTTPException 503 None), s)
      else
        let cache_key = get_cache_key (hash e) request_email_content
        in if cache_contains (lookup_time ctx) (result_cache s) cache_key
           then (case cache_getitem (lookup_time ctx) (result_cache s) cache_key of
                   Inl x \<Rightarrow> (Inl (Unhandled x), s)
                 | Inr (cached, c) \<Rightarrow> (Inr cached, s\<lparr>result_cache := c\<rparr>))
           else
             (case classify_email e request_email_content True (api_calls s) of
                (Inl x, calls) \<Rightarrow> processing_error x s calls
              | (Inr classification_result, calls) \<Rightarrow>
                  (case generate_response e request_email_content
                          (classification classification_result)
                          (pontuation classification_result) None calls of
                     (Inl x, calls) \<Rightarrow> processing_error x s calls
                   | (Inr reply, calls) \<Rightarrow>
                       (case EmailClassifyResponse_init (classification classification_result)
                               (pontuation classification_result) reply
                               (confidence classification_result) of
                          Inl x \<Rightarrow> processing_error x s calls
                        | Inr response \<Rightarrow>
                            (case cache_setitem (insert_time ctx) (result_cache s) cache_key response of
                               Inl x \<Rightarrow> processing_error x s calls
                             | Inr c \<Rightarrow>
                                 (case EmailHistoryItem_init (uuid4 ctx)
                                         (take 500 request_email_content)
                                         (classification response) (pontuation response)
                                         (suggested_reply response) (confidence response)
                                         (datetime_now ctx) of
                                    Inl x \<Rightarrow> processing_error x (s\<lparr>result_cache := c\<rparr>) calls
                                  | Inr history_item \<Rightarrow>
                                      (Inr response,
                                       s\<lparr>result_cache := c,
                                         email_history := email_history s @ [history_item],
                                         api_calls := calls\<rparr>)))))))"


section \<open>An example process\<close>

text \<open>
  A configured client, a backend that answers the first call with a structured
  classification and every later call with a reply text, the reference builtins, no spaCy
  model, and the length of the text as its hash.
\<close>

definition example_settings :: settings where
  "example_settings =
     \<lparr>OPENAI_API_KEY = ''sk-test'', OPENAI_MODEL = ''gpt-4o-mini'', OPENAI_TIMEOUT = 30,
      OPENAI_MAX_RETRIES = 3, CACHE_TTL = 3600, CACHE_MAX_SIZE = 1000\<rparr>"

definition example_backend :: backend where
  \<open>example_backend i r =
     (if i = 0
      then Returns \<lparr>choices = [Some ''{"classification": "Produtivo", "confidence": 0.9, "pontuation": 8}''],
                     completion_usage = Some \<lparr>prompt_tokens = 150, completion_tokens = 20\<rparr>\<rparr>
      else Returns \<lparr>choices = [Some '' Prezado, recebemos sua mensagem. ''],
                     completion_usage = Some \<lparr>prompt_tokens = 200, completion_tokens = 9\<rparr>\<rparr>)\<close>

definition example_env :: "backend \<Rightarrow> settings \<Rightarrow> env" where
  "example_env b st =
     \<lparr>client = OpenAIClient_init st, api = b, python = reference_builtins,
      nlp_globals = \<lparr>SPACY_AVAILABLE = False, nlp = None\<rparr>,
      hash = (\<lambda>s. int (length s))\<rparr>"

definition example_state :: "settings \<Rightarrow> app_state" where
  "example_state st =
     \<lparr>result_cache = TTLCache_init (CACHE_MAX_SIZE st) (CACHE_TTL st), email_history = [],
      api_calls = 0\<rparr>"

definition example_context :: "int \<Rightarrow> request_context" where
  "example_context t =
     \<lparr>lookup_time = t, insert_time = t + 2, uuid4 = ''7d2f'', datetime_now = t + 2\<rparr>"

section \<open>Predicates of the proofs\<close>

definition ws_free :: "string \<Rightarrow> bool" where
  "ws_free u = (\<forall>c\<in>set u. nonspace c)"

definition preserves :: "string \<Rightarrow> string \<Rightarrow> bool" where
  \<comment> \<open>every run of non-whitespace that occurs in \<open>s'\<close> occurs in \<open>s\<close>\<close>
  "preserves s s' = (\<forall>u. ws_free u \<and> u \<noteq> [] \<and> sublist u s' \<longrightarrow> sublist u s)"









lemma contains_sublist: "contains sub s = sublist sub s"
  by (induction s) (auto simp: sublist_Cons_right)


lemma preserves_trans: "preserves a b \<Longrightarrow> preserves b c \<Longrightarrow> preserves a c"
  by (auto simp: preserves_def)



lemma split_Nil [simp]: "split [] = []"
  by (simp add: split.simps)



lemma sublist_trans: "sublist a b \<Longrightarrow> sublist b c \<Longrightarrow> sublist a c"
  by (metis sublist_order.order_trans)






























































lemma contains_trans: "contains a b \<Longrightarrow> contains b c \<Longrightarrow> contains a c"
  unfolding contains_sublist by (rule sublist_trans)

lemma produtivo_in_improdutivo: "contains ''produtivo'' ''improdutivo''"
  by simp

lemma negative_contains_positive:
  "contains ''improdutivo'' s \<Longrightarrow> contains ''produtivo'' s"
  using produtivo_in_improdutivo by (rule contains_trans)

lemma float_clamp: "\<exists>r. float_max (Fin 0) (float_min (Fin 1) f) = Fin r \<and> 0 \<le> r \<and> r \<le> 1"
  by (cases f) (auto simp: float_max_def float_min_def)

lemma bind_Inr: "bind r f = Inr y \<longleftrightarrow> (\<exists>x. r = Inr x \<and> f x = Inr y)"
  by (cases r) (auto simp: bind_def)

lemma str_lower_Inr: "str_lower x = Inr l \<longleftrightarrow> (\<exists>s. x = VStr s \<and> l = lower s)"
  by (cases x) (auto simp: str_lower_def)

lemma extract_try_Inr:
  assumes "extract_try py response = Inr result"
  obtains data category c conf p pont where
    "json_loads py (clean_reply response) = Inr data"
    "dict_get data ''classification'' (VStr ''Improdutivo'') = Inr (VStr category)"
    "dict_get data ''confidence'' (VFloat (Fin 0.5)) = Inr c" "py_float py c = Inr conf"
    "dict_get data ''pontuation'' (VInt 5) = Inr p" "py_int py p = Inr pont"
    "result = \<lparr>classification =
                 (if contains ''produtivo'' (lower category)
                  then (if contains ''improdutivo'' (lower category) then ''Improdutivo''
                        else ''Produtivo'')
                  else ''Improdutivo''),
               confidence = float_max (Fin 0) (float_min (Fin 1) conf),
               pontuation = max 0 (min 10 pont)\<rparr>"
proof -
  from assms obtain data cls c conf p pont l cl where
    d: "json_loads py (clean_reply response) = Inr data"
    and 1: "dict_get data ''classification'' (VStr ''Improdutivo'') = Inr cls"
    and 2: "dict_get data ''confidence'' (VFloat (Fin 0.5)) = Inr c" "py_float py c = Inr conf"
    and 3: "dict_get data ''pontuation'' (VInt 5) = Inr p" "py_int py p = Inr pont"
    and l: "str_lower cls = Inr l"
    and cl: "(if contains ''produtivo'' l
              then bind (str_lower cls) (\<lambda>lowered.
                     Inr (if contains ''improdutivo'' lowered then ''Improdutivo''
                          else ''Produtivo''))
              else Inr ''Improdutivo'') = Inr cl"
    and r: "result = \<lparr>classification = cl,
               confidence = float_max (Fin 0) (float_min (Fin 1) conf),
               pontuation = max 0 (min 10 pont)\<rparr>"
    unfolding extract_try_def Let_def bind_Inr by auto
  from l obtain category where c: "cls = VStr category" "l = lower category"
    unfolding str_lower_Inr by blast
  have "cl = (if contains ''produtivo'' (lower category)
              then (if contains ''improdutivo'' (lower category) then ''Improdutivo''
                    else ''Produtivo'')
              else ''Improdutivo'')"
    using cl c by (auto simp: bind_def str_lower_def split: if_splits)
  with d 1 2 3 r c that show thesis by blast
qed

lemma extract_Inr_cases:
  assumes "extract_classification_data py response = Inr result"
  shows "extract_try py response = Inr result \<or> result = extract_except response"
  using assms by (auto simp: extract_classification_data_def split: sum.splits if_splits)

lemma extract_range:
  assumes "extract_classification_data py response = Inr result"
  shows "(classification result = ''Produtivo'' \<or> classification result = ''Improdutivo'')
         \<and> 0 \<le> pontuation result \<and> pontuation result \<le> 10
         \<and> (\<exists>r. confidence result = Fin r \<and> 0 \<le> r \<and> r \<le> 1)"
  using extract_Inr_cases [OF assms]
proof
  assume "extract_try py response = Inr result"
  then show ?thesis
  proof (rule extract_try_Inr)
    fix conf pont category
    assume "result = \<lparr>classification =
                 (if contains ''produtivo'' (lower category)
                  then (if contains ''improdutivo'' (lower category) then ''Improdutivo''
                        else ''Produtivo'')
                  else ''Improdutivo''),
               confidence = float_max (Fin 0) (float_min (Fin 1) conf),
               pontuation = max 0 (min 10 pont)\<rparr>"
    then show ?thesis using float_clamp [of conf] by auto
  qed
next
  assume r: "result = extract_except response"
  have half: "\<exists>r::real. Fin 0.5 = Fin r \<and> 0 \<le> r \<and> r \<le> 1"
    by (intro exI [of _ "0.5"]) simp
  show ?thesis
  proof (cases "contains ''produtivo'' (lower response)
                \<and> \<not> contains ''improdutivo'' (lower response)")
    case True
    with r have "result = \<lparr>classification = ''Produtivo'', confidence = Fin 0.5, pontuation = 7\<rparr>"
      by (simp add: extract_except_def Let_def)
    with half show ?thesis by simp
  next
    case False
    with r have "result = \<lparr>classification = ''Improdutivo'', confidence = Fin 0.5, pontuation = 3\<rparr>"
      by (auto simp: extract_except_def Let_def)
    with half show ?thesis by simp
  qed
qed


lemma null_confidence_raises:
  assumes "json_loads py (clean_reply response) = Inr (VDict d)"
    and "map_of d ''confidence'' = Some VNone"
  shows "extract_classification_data py response = Inl TypeError"
  using assms
  by (simp add: extract_classification_data_def extract_try_def bind_def dict_get_def
      py_float_def split: option.splits)

text \<open>
  C1. \<open>extract_classification_data\<close> does not return on every text: the handler names
  \<open>JSONDecodeError\<close>, \<open>ValueError\<close> and \<open>KeyError\<close> only. A reply that is well-formed JSON
  with a null confidence raises \<open>TypeError\<close> from \<open>float(None)\<close>; a classification that is
  not a string, or a reply that is not a JSON object, raises \<open>AttributeError\<close>.
\<close>

theorem extract_classification_data_raises:
  \<open>extract_classification_data reference_builtins ''{"confidence": null}'' = Inl TypeError
   \<and> extract_classification_data reference_builtins ''{"classification": 5}'' = Inl AttributeError
   \<and> extract_classification_data reference_builtins ''[]'' = Inl AttributeError\<close>
  by code_simp

lemma example_clamped:
  \<open>extract_classification_data reference_builtins
      ''{"classification": "Produtivo", "confidence": -0.3, "pontuation": 15}''
    = Inr \<lparr>classification = ''Produtivo'', confidence = Fin 0, pontuation = 10\<rparr>\<close>
  by code_simp

text \<open>
  C2. Whenever \<open>extract_classification_data\<close> returns, for any behaviour of
  \<open>json.loads\<close>, \<open>float\<close> and \<open>int\<close>, the classification is \<open>Produtivo\<close> or
  \<open>Improdutivo\<close>, the pontuation is an integer from 0 to 10 and the confidence is a
  finite float from 0.0 to 1.0. A structured reply with pontuation 15 and confidence -0.3
  gives pontuation 10 and confidence 0.0.
\<close>

theorem extract_classification_data_in_range:
  \<open>(\<forall>py response result.
      extract_classification_data py response = Inr result \<longrightarrow>
        (classification result = ''Produtivo'' \<or> classification result = ''Improdutivo'')
      \<and> 0 \<le> pontuation result \<and> pontuation result \<le> 10
      \<and> (\<exists>r. confidence result = Fin r \<and> 0 \<le> r \<and> r \<le> 1))
   \<and> extract_classification_data reference_builtins
        ''{"classification": "Produtivo", "confidence": -0.3, "pontuation": 15}''
      = Inr \<lparr>classification = ''Produtivo'', confidence = Fin 0.0, pontuation = 10\<rparr>\<close>
  using extract_range example_clamped by simp

theorem extract_classification_data_in_range_witness:
  \<open>extract_classification_data reference_builtins
      ''{"classification": "muito produtivo", "confidence": 7, "pontuation": -2}''
    = Inr \<lparr>classification = ''Produtivo'', confidence = Fin 1, pontuation = 0\<rparr>
   \<and> (0::int) \<le> pontuation \<lparr>classification = ''Produtivo'', confidence = Fin 1, pontuation = 0\<rparr>
   \<and> pontuation \<lparr>classification = ''Produtivo'', confidence = Fin 1, pontuation = 0\<rparr> \<le> 10
   \<and> (\<exists>r. confidence \<lparr>classification = ''Produtivo'', confidence = Fin 1, pontuation = 0\<rparr> = Fin r
          \<and> 0 \<le> r \<and> r \<le> 1)\<close>
proof -
  have ex: \<open>extract_classification_data reference_builtins
      ''{"classification": "muito produtivo", "confidence": 7, "pontuation": -2}''
    = Inr \<lparr>classification = ''Produtivo'', confidence = Fin 1, pontuation = 0\<rparr>\<close>
    by code_simp
  from extract_classification_data_in_range ex show ?thesis by blast
qed

text \<open>
  C5. When the \<open>try\<close> block succeeds, the reply decoded to an object whose
  classification (or the default) is a string, and the result is \<open>Improdutivo\<close> if the
  lowercased string contains \<open>improdutivo\<close>, else \<open>Produtivo\<close> if it contains
  \<open>produtivo\<close>, else \<open>Improdutivo\<close>.
\<close>

theorem classification_normalised:
  assumes "extract_try py response = Inr result"
  shows "extract_classification_data py response = Inr result
    \<and> (\<exists>data category.
          json_loads py (clean_reply response) = Inr data
        \<and> dict_get data ''classification'' (VStr ''Improdutivo'') = Inr (VStr category)
        \<and> classification result =
             (if contains ''improdutivo'' (lower category) then ''Improdutivo''
              else if contains ''produtivo'' (lower category) then ''Produtivo''
              else ''Improdutivo''))"
proof
  show "extract_classification_data py response = Inr result"
    using assms by (simp add: extract_classification_data_def)
next
  from assms show "\<exists>data category.
          json_loads py (clean_reply response) = Inr data
        \<and> dict_get data ''classification'' (VStr ''Improdutivo'') = Inr (VStr category)
        \<and> classification result =
             (if contains ''improdutivo'' (lower category) then ''Improdutivo''
              else if contains ''produtivo'' (lower category) then ''Produtivo''
              else ''Improdutivo'')"
  proof (rule extract_try_Inr)
    fix data category conf pont
    assume d: "json_loads py (clean_reply response) = Inr data"
      and c: "dict_get data ''classification'' (VStr ''Improdutivo'') = Inr (VStr category)"
      and r: "result = \<lparr>classification =
                 (if contains ''produtivo'' (lower category)
                  then (if contains ''improdutivo'' (lower category) then ''Improdutivo''
                        else ''Produtivo'')
                  else ''Improdutivo''),
               confidence = float_max (Fin 0) (float_min (Fin 1) conf),
               pontuation = max 0 (min 10 pont)\<rparr>"
    have "classification result =
             (if contains ''improdutivo'' (lower category) then ''Improdutivo''
              else if contains ''produtivo'' (lower category) then ''Produtivo''
              else ''Improdutivo'')"
      using r negative_contains_positive [of "lower category"] by auto
    with d c show ?thesis by blast
  qed
qed

theorem classification_normalised_witness:
  \<open>extract_try reference_builtins ''{"classification": "IMPRODUTIVO"}''
     = Inr \<lparr>classification = ''Improdutivo'', confidence = Fin 0.5, pontuation = 5\<rparr>
   \<and> extract_classification_data reference_builtins ''{"classification": "IMPRODUTIVO"}''
     = Inr \<lparr>classification = ''Improdutivo'', confidence = Fin 0.5, pontuation = 5\<rparr>\<close>
proof -
  have ex: \<open>extract_try reference_builtins ''{"classification": "IMPRODUTIVO"}''
     = Inr \<lparr>classification = ''Improdutivo'', confidence = Fin 0.5, pontuation = 5\<rparr>\<close>
    by code_simp
  from classification_normalised [OF ex] ex show ?thesis by blast
qed

text \<open>
  The fallback is reached when the \<open>try\<close> block raises an exception that the handler
  names (a \<open>JSONDecodeError\<close> of the decoder in particular): the result is then
  \<open>Produtivo\<close>, 7, 0.5 if the lowercased reply contains \<open>produtivo\<close> and not
  \<open>improdutivo\<close>, else \<open>Improdutivo\<close>, 3, 0.5.
\<close>

lemma lexical_fallback:
  assumes "extract_try py response = Inl e" and "isinstance_ValueError e \<or> e = KeyError"
  shows "extract_classification_data py response =
           Inr (if contains ''produtivo'' (lower response)
                   \<and> \<not> contains ''improdutivo'' (lower response)
                then \<lparr>classification = ''Produtivo'', confidence = Fin 0.5, pontuation = 7\<rparr>
                else \<lparr>classification = ''Improdutivo'', confidence = Fin 0.5, pontuation = 3\<rparr>)"
  using assms by (auto simp: extract_classification_data_def extract_except_def Let_def)

lemma decode_error_is_parse_failure:
  "json_loads py (clean_reply response) = Inl e \<Longrightarrow> extract_try py response = Inl e"
  by (simp add: extract_try_def bind_def)

lemma lexical_fallback_example:
  \<open>extract_try reference_builtins ''Este email parece PRODUTIVO'' = Inl JSONDecodeError
   \<and> (isinstance_ValueError JSONDecodeError \<or> JSONDecodeError = KeyError)
   \<and> extract_classification_data reference_builtins ''Este email parece PRODUTIVO''
       = Inr \<lparr>classification = ''Produtivo'', confidence = Fin 0.5, pontuation = 7\<rparr>\<close>
proof -
  have ex: \<open>extract_try reference_builtins ''Este email parece PRODUTIVO'' = Inl JSONDecodeError\<close>
    by code_simp
  have c: \<open>isinstance_ValueError JSONDecodeError \<or> JSONDecodeError = KeyError\<close> by simp
  have t: \<open>contains ''produtivo'' (lower ''Este email parece PRODUTIVO'')
           \<and> \<not> contains ''improdutivo'' (lower ''Este email parece PRODUTIVO'')\<close>
    by code_simp
  from lexical_fallback [OF ex c] t ex c show ?thesis by simp
qed


text \<open>
  C6. The fallback is not applied on every reply whose structured parse fails. On the
  reply \<open>{"confidence": null}\<close> the parse into the three fields fails with
  \<open>TypeError\<close>, on \<open>{"pontuation": Infinity}\<close> with \<open>OverflowError\<close>; the handler
  names neither, so the function raises instead of returning the fallback
  \<open>Improdutivo\<close>, 3, 0.5 that the text of either reply calls for.
\<close>

theorem lexical_fallback_not_applied:
  \<open>extract_try reference_builtins ''{"confidence": null}'' = Inl TypeError
   \<and> extract_except ''{"confidence": null}''
       = \<lparr>classification = ''Improdutivo'', confidence = Fin 0.5, pontuation = 3\<rparr>
   \<and> extract_classification_data reference_builtins ''{"confidence": null}'' = Inl TypeError
   \<and> extract_classification_data reference_builtins ''{"confidence": null}''
       \<noteq> Inr \<lparr>classification = ''Improdutivo'', confidence = Fin 0.5, pontuation = 3\<rparr>
   \<and> extract_try reference_builtins ''{"pontuation": Infinity}'' = Inl OverflowError
   \<and> extract_except ''{"pontuation": Infinity}''
       = \<lparr>classification = ''Improdutivo'', confidence = Fin 0.5, pontuation = 3\<rparr>
   \<and> extract_classification_data reference_builtins ''{"pontuation": Infinity}''
       = Inl OverflowError\<close>
  by code_simp


lemma retry_success:
  "f calls = Inr x \<Longrightarrow> retry stop f n calls = (Inr x, Suc calls)"
  by (subst retry.simps) simp

lemma retry_permanent:
  "f calls = Inl e \<Longrightarrow> \<not> retry_if_exception_type e \<Longrightarrow> retry stop f n calls = (Inl e, Suc calls)"
  by (subst retry.simps) simp

lemma retry_exhausted:
  "f calls = Inl e \<Longrightarrow> retry_if_exception_type e \<Longrightarrow> stop \<le> n \<Longrightarrow>
   retry stop f n calls = (Inl RetryError, Suc calls)"
  by (subst retry.simps) simp

lemma retry_again:
  "f calls = Inl e \<Longrightarrow> retry_if_exception_type e \<Longrightarrow> n < stop \<Longrightarrow>
   retry stop f n calls = retry stop f (Suc n) (Suc calls)"
  by (subst retry.simps) simp

lemma retry_calls:
  "calls < snd (retry stop f n calls) \<and> snd (retry stop f n calls) \<le> Suc calls + (stop - n)"
proof (induction stop f n calls rule: retry.induct)
  case (1 stop f n calls)
  show ?case
  proof (cases "f calls")
    case (Inr x)
    then show ?thesis by (simp add: retry_success)
  next
    case (Inl e)
    show ?thesis
    proof (cases "retry_if_exception_type e")
      case False
      with Inl show ?thesis by (simp add: retry_permanent)
    next
      case True
      show ?thesis
      proof (cases "stop \<le> n")
        case True
        with Inl \<open>retry_if_exception_type e\<close> show ?thesis by (simp add: retry_exhausted)
      next
        case False
        then have "n < stop" by simp
        with Inl True have eq: "retry stop f n calls = retry stop f (Suc n) (Suc calls)"
          by (simp add: retry_again)
        have "Suc calls < snd (retry stop f (Suc n) (Suc calls))
              \<and> snd (retry stop f (Suc n) (Suc calls)) \<le> Suc (Suc calls) + (stop - Suc n)"
          using 1 [OF Inl] True False by simp
        with eq \<open>n < stop\<close> show ?thesis by auto
      qed
    qed
  qed
qed

lemma chat_completion_calls:
  "calls < snd (chat_completion remote self msgs t mt mo calls)
   \<and> snd (chat_completion remote self msgs t mt mo calls) \<le> calls + 3"
  using retry_calls [of calls stop_after_attempt
      "chat_completion_body remote self msgs t mt mo" 1]
  by (simp add: chat_completion_def stop_after_attempt_def)

lemma chat_completion_max_retries_unused:
  "chat_completion remote (self\<lparr>max_retries := n\<rparr>) msgs t mt mo calls
     = chat_completion remote self msgs t mt mo calls"
proof -
  have "completion_request (self\<lparr>max_retries := n\<rparr>) msgs t mt mo
          = completion_request self msgs t mt mo"
    by (cases mo) (simp_all add: completion_request_def)
  then have "chat_completion_body remote (self\<lparr>max_retries := n\<rparr>) msgs t mt mo
          = chat_completion_body remote self msgs t mt mo"
    unfolding chat_completion_body_def by simp
  then show ?thesis by (simp add: chat_completion_def)
qed

lemma chat_completion_permanent:
  assumes "remote calls (completion_request self msgs t mt mo) = Raises e"
    and "\<not> retry_if_exception_type e"
  shows "chat_completion remote self msgs t mt mo calls = (Inl e, Suc calls)"
  using assms by (simp add: chat_completion_def chat_completion_body_def retry_permanent)

lemma chat_completion_third_attempt:
  assumes "remote calls (completion_request self msgs t mt mo) = Raises e1"
    and "remote (Suc calls) (completion_request self msgs t mt mo) = Raises e2"
    and "retry_if_exception_type e1" "retry_if_exception_type e2"
    and "chat_completion_body remote self msgs t mt mo (Suc (Suc calls)) = Inr x"
  shows "chat_completion remote self msgs t mt mo calls = (Inr x, calls + 3)"
proof -
  let ?f = "chat_completion_body remote self msgs t mt mo"
  have 1: "?f calls = Inl e1" and 2: "?f (Suc calls) = Inl e2"
    using assms(1,2) by (simp_all add: chat_completion_body_def)
  have "retry 3 ?f 1 calls = retry 3 ?f 2 (Suc calls)"
    using retry_again [of ?f calls e1 1 3] 1 assms(3) by (simp add: numeral_2_eq_2)
  also have "\<dots> = retry 3 ?f 3 (Suc (Suc calls))"
    using retry_again [of ?f "Suc calls" e2 2 3] 2 assms(4)
    by (simp add: numeral_3_eq_3 numeral_2_eq_2)
  also have "\<dots> = (Inr x, Suc (Suc (Suc calls)))"
    using retry_success [of ?f "Suc (Suc calls)" x 3 3] assms(5) by simp
  finally show ?thesis by (simp add: chat_completion_def stop_after_attempt_def)
qed


text \<open>
  C10, as stated, fails: the logging statement reads \<open>response.usage.prompt_tokens\<close>
  before the content is returned, so a completion whose message content is null and
  which carries no usage figures raises \<open>AttributeError\<close>.
\<close>

theorem chat_completion_null_content_counterexample:
  "chat_completion
     (\<lambda>i r. Returns \<lparr>choices = [None], completion_usage = None\<rparr>)
     \<lparr>api_key = ''sk-test'', model = ''gpt-4o-mini'', timeout = 30, max_retries = 3\<rparr>
     [] 0.3 200 None 0 = (Inl AttributeError, 1)"
  by (simp add: chat_completion_def stop_after_attempt_def chat_completion_body_def bind_def
      retry.simps retry_if_exception_type_def)

text \<open>
  C10, amended. When the backend returns a completion that has a first choice and usage
  figures, \<open>chat_completion\<close> returns after this one invocation: the empty string if the
  content of the message is \<open>None\<close> or empty, else the content stripped of surrounding
  whitespace.
\<close>

theorem chat_completion_content:
  assumes "remote calls (completion_request self msgs t mt mo) = Returns response"
    and "choices response = c # cs"
    and "completion_usage response = Some u"
  shows "chat_completion remote self msgs t mt mo calls =
           (Inr (if c = None \<or> c = Some [] then [] else strip (the c)), Suc calls)"
proof -
  have "chat_completion_body remote self msgs t mt mo calls =
          Inr (if c = None \<or> c = Some [] then [] else strip (the c))"
    using assms by (cases c) (simp_all add: chat_completion_body_def bind_def)
  then show ?thesis
    unfolding chat_completion_def by (rule retry_success)
qed

theorem chat_completion_content_witness:
  "chat_completion
     (\<lambda>i r. Returns \<lparr>choices = [None], completion_usage = Some \<lparr>prompt_tokens = 9, completion_tokens = 0\<rparr>\<rparr>)
     \<lparr>api_key = ''sk-test'', model = ''gpt-4o-mini'', timeout = 30, max_retries = 3\<rparr>
     [] 0.3 200 None 0 = (Inr [], 1)
   \<and> chat_completion
     (\<lambda>i r. Returns \<lparr>choices = [Some '' ok  ''], completion_usage = Some \<lparr>prompt_tokens = 9, completion_tokens = 1\<rparr>\<rparr>)
     \<lparr>api_key = ''sk-test'', model = ''gpt-4o-mini'', timeout = 30, max_retries = 3\<rparr>
     [] 0.3 200 None 0 = (Inr ''ok'', 1)"
proof -
  let ?self = "\<lparr>api_key = ''sk-test'', model = ''gpt-4o-mini'', timeout = 30, max_retries = 3\<rparr>"
  let ?r1 = "\<lparr>choices = [None], completion_usage = Some \<lparr>prompt_tokens = 9, completion_tokens = 0\<rparr>\<rparr>"
  let ?r2 = "\<lparr>choices = [Some '' ok  ''], completion_usage = Some \<lparr>prompt_tokens = 9, completion_tokens = 1\<rparr>\<rparr>"
  have s: "strip '' ok  '' = ''ok''" by code_simp
  have "chat_completion (\<lambda>i r. Returns ?r1) ?self [] 0.3 200 None 0 = (Inr [], 1)"
    using chat_completion_content [of "\<lambda>i r. Returns ?r1" 0 ?self "[]" "0.3" 200 None ?r1 None "[]"]
    by simp
  moreover have "chat_completion (\<lambda>i r. Returns ?r2) ?self [] 0.3 200 None 0 = (Inr ''ok'', 1)"
    using chat_completion_content
      [of "\<lambda>i r. Returns ?r2" 0 ?self "[]" "0.3" 200 None ?r2 "Some '' ok  ''" "[]"] s
    by simp
  ultimately show ?thesis by simp
qed

text \<open>
  C4. The number of attempts is the literal 3 of the decorator, not the configured
  \<open>OPENAI_MAX_RETRIES\<close>: configured with a maximum of 1 and given a backend that
  always fails to connect, \<open>chat_completion\<close> invokes the backend 3 times.
\<close>

theorem chat_completion_exceeds_configured_retries:
  "max_retries (OpenAIClient_init
      \<lparr>OPENAI_API_KEY = ''sk-test'', OPENAI_MODEL = ''gpt-4o-mini'', OPENAI_TIMEOUT = 30,
       OPENAI_MAX_RETRIES = 1, CACHE_TTL = 3600, CACHE_MAX_SIZE = 1000\<rparr>) = 1
   \<and> chat_completion (\<lambda>i r. Raises APIConnectionError)
       (OpenAIClient_init
          \<lparr>OPENAI_API_KEY = ''sk-test'', OPENAI_MODEL = ''gpt-4o-mini'', OPENAI_TIMEOUT = 30,
           OPENAI_MAX_RETRIES = 1, CACHE_TTL = 3600, CACHE_MAX_SIZE = 1000\<rparr>)
       [] 0.7 1000 None 0 = (Inl RetryError, 3)"
  by (simp add: OpenAIClient_init_def chat_completion_def stop_after_attempt_def
      chat_completion_body_def retry.simps retry_if_exception_type_def)

text \<open>
  C3, as stated, fails: \<open>chat_completion\<close> does not look at the credential. With an empty
  key and a backend that cannot be reached it makes three remote attempts and retries twice.
\<close>

theorem chat_completion_unconfigured_counterexample:
  "\<not> is_configured (OpenAIClient_init
      \<lparr>OPENAI_API_KEY = [], OPENAI_MODEL = ''gpt-4o-mini'', OPENAI_TIMEOUT = 30,
       OPENAI_MAX_RETRIES = 3, CACHE_TTL = 3600, CACHE_MAX_SIZE = 1000\<rparr>)
   \<and> chat_completion (\<lambda>i r. Raises APIConnectionError)
       (OpenAIClient_init
          \<lparr>OPENAI_API_KEY = [], OPENAI_MODEL = ''gpt-4o-mini'', OPENAI_TIMEOUT = 30,
           OPENAI_MAX_RETRIES = 3, CACHE_TTL = 3600, CACHE_MAX_SIZE = 1000\<rparr>)
       [] 0.7 1000 None 0 = (Inl RetryError, 3)"
  by (simp add: OpenAIClient_init_def is_configured_def chat_completion_def stop_after_attempt_def
      chat_completion_body_def retry.simps retry_if_exception_type_def)


lemma map_of_moved:
  "map_of (filter (\<lambda>(k, _). k \<noteq> key) l @ [(key, v)]) =
     (map_of l)(key \<mapsto> v)"
proof
  fix k
  have "map_of (filter (\<lambda>(k, _). k \<noteq> key) l) k = (if k = key then None else map_of l k)"
    by (induction l) auto
  then show "map_of (filter (\<lambda>(k, _). k \<noteq> key) l @ [(key, v)]) k = ((map_of l)(key \<mapsto> v)) k"
    by (auto simp: map_add_def split: option.splits)
qed

lemma cache_getitem_hit:
  assumes "cache_contains now c key"
  obtains v expires where
    "map_of (links c) key = Some (v, expires)" "now < expires"
    "cache_getitem now c key =
       Inr (v, c\<lparr>links := filter (\<lambda>(k, _). k \<noteq> key) (links c) @ [(key, v, expires)]\<rparr>)"
  using assms by (auto simp: cache_contains_def cache_getitem_def split: option.splits)

lemma cache_setitem_links:
  assumes "cache_setitem now c key v = Inr c'"
  obtains kept where
    "c' = c\<lparr>links := filter (\<lambda>(k, _). k \<noteq> key) kept @ [(key, v, now + ttl c)]\<rparr>"
proof -
  define live where "live = filter (\<lambda>(k, _, expires). now < expires) (links c)"
  define kept where "kept = (if key \<in> fst ` set live then live
                       else drop (nat (int (length live) + 1 - maxsize c)) live)"
  from assms have "\<not> 1 > maxsize c"
    by (cases "1 > maxsize c") (simp_all add: cache_setitem_def Let_def)
  with assms have
    "c' = c\<lparr>links := filter (\<lambda>(k, _). k \<noteq> key) kept @ [(key, v, now + ttl c)]\<rparr>"
    unfolding cache_setitem_def Let_def live_def [symmetric] kept_def [symmetric] by simp
  then show thesis by (rule that)
qed

lemma cache_setitem_lookup:
  assumes "cache_setitem now c key v = Inr c'"
  shows "map_of (links c') key = Some (v, now + ttl c)"
proof -
  from assms obtain kept where
    "c' = c\<lparr>links := filter (\<lambda>(k, _). k \<noteq> key) kept @ [(key, v, now + ttl c)]\<rparr>"
    by (rule cache_setitem_links)
  then have "links c' = filter (\<lambda>(k, _). k \<noteq> key) kept @ [(key, v, now + ttl c)]" by simp
  then show ?thesis by (simp only: map_of_moved) simp
qed

lemma init_valid:
  assumes "EmailClassifyResponse_init c p reply f = Inr response"
  shows "EmailHistoryItem_init i t (classification response) (pontuation response)
           (suggested_reply response) (confidence response) created
         = Inr \<lparr>classification = c, confidence = f, pontuation = p, suggested_reply = reply,
                item_id = i, email_content = t, created_at = created\<rparr>"
  using assms
  by (auto simp: EmailClassifyResponse_init_def EmailHistoryItem_init_def split: if_splits)

lemma endpoint_unconfigured:
  "\<not> is_configured (client e) \<Longrightarrow>
   classify_email_endpoint e ctx mail s = (Inl (HTTPException 503 None), s)"
  by (simp add: classify_email_endpoint_def)

lemma endpoint_hit:
  assumes "is_configured (client e)"
    and "cache_contains (lookup_time ctx) (result_cache s) (get_cache_key (hash e) mail)"
  obtains v expires where
    "map_of (links (result_cache s)) (get_cache_key (hash e) mail) = Some (v, expires)"
    "lookup_time ctx < expires"
    "classify_email_endpoint e ctx mail s =
       (Inr v, s\<lparr>result_cache := (result_cache s)\<lparr>links :=
           filter (\<lambda>(k, _). k \<noteq> get_cache_key (hash e) mail) (links (result_cache s))
           @ [(get_cache_key (hash e) mail, v, expires)]\<rparr>\<rparr>)"
proof -
  from assms(2) obtain v expires where
    "map_of (links (result_cache s)) (get_cache_key (hash e) mail) = Some (v, expires)"
    "lookup_time ctx < expires"
    "cache_getitem (lookup_time ctx) (result_cache s) (get_cache_key (hash e) mail) =
       Inr (v, (result_cache s)\<lparr>links :=
           filter (\<lambda>(k, _). k \<noteq> get_cache_key (hash e) mail) (links (result_cache s))
           @ [(get_cache_key (hash e) mail, v, expires)]\<rparr>)"
    by (rule cache_getitem_hit)
  with assms that show thesis by (simp add: classify_email_endpoint_def Let_def)
qed

lemma endpoint_miss:
  assumes "is_configured (client e)"
    and "\<not> cache_contains (lookup_time ctx) (result_cache s) (get_cache_key (hash e) mail)"
  shows "classify_email_endpoint e ctx mail s =
     (case classify_email e mail True (api_calls s) of
        (Inl x, calls) \<Rightarrow> processing_error x s calls
      | (Inr cr, calls) \<Rightarrow>
          (case generate_response e mail (classification cr) (pontuation cr) None calls of
             (Inl x, calls) \<Rightarrow> processing_error x s calls
           | (Inr reply, calls) \<Rightarrow>
               (case EmailClassifyResponse_init (classification cr) (pontuation cr) reply
                       (confidence cr) of
                  Inl x \<Rightarrow> processing_error x s calls
                | Inr response \<Rightarrow>
                    (case cache_setitem (insert_time ctx) (result_cache s)
                            (get_cache_key (hash e) mail) response of
                       Inl x \<Rightarrow> processing_error x s calls
                     | Inr c \<Rightarrow>
                         (Inr response,
                          s\<lparr>result_cache := c,
                            email_history := email_history s @
                              [\<lparr>classification = classification cr, confidence = confidence cr,
                                pontuation = pontuation cr, suggested_reply = reply,
                                item_id = uuid4 ctx, email_content = take 500 mail,
                                created_at = datetime_now ctx\<rparr>],
                            api_calls := calls\<rparr>)))))"
  using assms
  by (auto simp: classify_email_endpoint_def Let_def init_valid split: prod.splits sum.splits)


lemma processing_error_cache:
  "processing_error x s calls = (r, s') \<Longrightarrow>
   result_cache s' = result_cache s \<and> email_history s' = email_history s"
  by (auto simp: processing_error_def)

lemma failed_run:
  assumes "classify_email_endpoint e ctx mail s = (Inl f, s')"
  shows "result_cache s' = result_cache s \<and> email_history s' = email_history s"
proof (cases "is_configured (client e)")
  case False
  with assms show ?thesis by (simp add: endpoint_unconfigured)
next
  case True
  show ?thesis
  proof (cases "cache_contains (lookup_time ctx) (result_cache s) (get_cache_key (hash e) mail)")
    case True
    with \<open>is_configured (client e)\<close> assms show ?thesis
      by (auto elim!: endpoint_hit [of e ctx s mail])
  next
    case False
    from assms show ?thesis
      unfolding endpoint_miss [OF True False]
      by (auto split: prod.splits sum.splits dest: processing_error_cache)
  qed
qed

lemma classify_email_remote_failure:
  assumes "chat_completion (api e)
             (client e)
             [\<lparr>role = ''system'', content = classifier_system_message\<rparr>,
              \<lparr>role = ''user'', content = CLASSIFICATION_PROMPT_format mail\<rparr>]
             0.3 200 None calls = (Inl x, calls')"
  shows "classify_email e mail use_preprocessing calls = (Inl x, calls')"
  using assms by (simp add: classify_email_def Let_def)

lemma generate_response_remote_failure:
  assumes "chat_completion (api e)
             (client e)
             [\<lparr>role = ''system'', content = generator_system_message\<rparr>,
              \<lparr>role = ''user'', content = RESPONSE_PROMPT_TEMPLATE_format c p mail\<rparr>]
             0.7 500 None calls = (Inl x, calls')"
  shows "generate_response e mail c p None calls = (Inl x, calls')"
  using assms by (simp add: generate_response_def Let_def)

text \<open>
  C8. A run of the entry point that ends in a failure leaves the result cache and the
  history as they were. With a configured client and no live entry for the text, a
  failure \<open>x\<close> of the classification step, or of the reply step after it, is returned as
  the processing failure of status 500 that carries \<open>x\<close>, and only the count of remote
  invocations changes.
\<close>

theorem failed_run_leaves_cache:
  "(classify_email_endpoint e ctx mail s = (Inl f, s') \<longrightarrow>
      result_cache s' = result_cache s \<and> email_history s' = email_history s)
   \<and> (is_configured (client e)
        \<and> \<not> cache_contains (lookup_time ctx) (result_cache s) (get_cache_key (hash e) mail) \<longrightarrow>
        (classify_email e mail True (api_calls s) = (Inl x, calls) \<longrightarrow>
           classify_email_endpoint e ctx mail s
             = (Inl (HTTPException 500 (Some x)), s\<lparr>api_calls := calls\<rparr>))
      \<and> (classify_email e mail True (api_calls s) = (Inr cr, calls1)
           \<and> generate_response e mail (classification cr) (pontuation cr) None calls1
               = (Inl x, calls) \<longrightarrow>
           classify_email_endpoint e ctx mail s
             = (Inl (HTTPException 500 (Some x)), s\<lparr>api_calls := calls\<rparr>)))"
proof (intro conjI impI)
  assume "classify_email_endpoint e ctx mail s = (Inl f, s')"
  then show "result_cache s' = result_cache s" "email_history s' = email_history s"
    using failed_run by blast+
next
  assume "is_configured (client e)
        \<and> \<not> cache_contains (lookup_time ctx) (result_cache s) (get_cache_key (hash e) mail)"
    and "classify_email e mail True (api_calls s) = (Inl x, calls)"
  then show "classify_email_endpoint e ctx mail s
             = (Inl (HTTPException 500 (Some x)), s\<lparr>api_calls := calls\<rparr>)"
    by (simp add: endpoint_miss processing_error_def)
next
  assume "is_configured (client e)
        \<and> \<not> cache_contains (lookup_time ctx) (result_cache s) (get_cache_key (hash e) mail)"
    and "classify_email e mail True (api_calls s) = (Inr cr, calls1)
           \<and> generate_response e mail (classification cr) (pontuation cr) None calls1
               = (Inl x, calls)"
  then show "classify_email_endpoint e ctx mail s
             = (Inl (HTTPException 500 (Some x)), s\<lparr>api_calls := calls\<rparr>)"
    by (simp add: endpoint_miss processing_error_def)
qed

theorem failed_run_leaves_cache_witness:
  "classify_email_endpoint
     (example_env (\<lambda>i r. if i = 0 then example_backend i r else Raises RateLimitError)
        example_settings)
     (example_context 100) ''Oi, tudo bem?'' (example_state example_settings)
   = (Inl (HTTPException 500 (Some RetryError)), (example_state example_settings)\<lparr>api_calls := 4\<rparr>)
   \<and> result_cache ((example_state example_settings)\<lparr>api_calls := 4\<rparr>)
       = result_cache (example_state example_settings)"
proof -
  let ?e = "example_env (\<lambda>i r. if i = 0 then example_backend i r else Raises RateLimitError)
              example_settings"
  let ?s = "example_state example_settings"
  have conf: "is_configured (client ?e)
     \<and> \<not> cache_contains (lookup_time (example_context 100)) (result_cache ?s)
           (get_cache_key (hash ?e) ''Oi, tudo bem?'')"
    by code_simp
  have c: "classify_email ?e ''Oi, tudo bem?'' True (api_calls ?s)
      = (Inr \<lparr>classification = ''Produtivo'', confidence = Fin 0.9, pontuation = 8,
              preprocessed_text = ''oi tudo bem''\<rparr>, 1)"
    by code_simp
  have g: "generate_response ?e ''Oi, tudo bem?''
      (classification \<lparr>classification = ''Produtivo'', confidence = Fin 0.9, pontuation = 8,
              preprocessed_text = ''oi tudo bem''\<rparr>)
      (pontuation \<lparr>classification = ''Produtivo'', confidence = Fin 0.9, pontuation = 8,
              preprocessed_text = ''oi tudo bem''\<rparr>) None 1
      = (Inl RetryError, 4)"
    by code_simp
  have run: "classify_email_endpoint ?e (example_context 100) ''Oi, tudo bem?'' ?s
     = (Inl (HTTPException 500 (Some RetryError)), ?s\<lparr>api_calls := 4\<rparr>)"
    using failed_run_leaves_cache
      [of ?e "example_context 100" "''Oi, tudo bem?''" ?s _ _ RetryError 4
         "\<lparr>classification = ''Produtivo'', confidence = Fin 0.9, pontuation = 8,
              preprocessed_text = ''oi tudo bem''\<rparr>" 1]
      conf c g by blast
  moreover have "result_cache (?s\<lparr>api_calls := 4\<rparr>) = result_cache ?s"
    using failed_run_leaves_cache
      [of ?e "example_context 100" "''Oi, tudo bem?''" ?s
         "HTTPException 500 (Some RetryError)" "?s\<lparr>api_calls := 4\<rparr>"] run
    by blast
  ultimately show ?thesis by blast
qed


lemma successful_run_configured:
  "classify_email_endpoint e ctx mail s = (Inr r, s1) \<Longrightarrow> is_configured (client e)"
  by (cases "is_configured (client e)") (simp_all add: endpoint_unconfigured)

lemma successful_run_stores:
  assumes "classify_email_endpoint e ctx mail s = (Inr r, s1)"
  shows "\<exists>expires. map_of (links (result_cache s1)) (get_cache_key (hash e) mail) = Some (r, expires)"
proof -
  have conf: "is_configured (client e)" using assms by (rule successful_run_configured)
  show ?thesis
  proof (cases "cache_contains (lookup_time ctx) (result_cache s) (get_cache_key (hash e) mail)")
    case True
    with conf obtain v expires where
      "classify_email_endpoint e ctx mail s =
       (Inr v, s\<lparr>result_cache := (result_cache s)\<lparr>links :=
           filter (\<lambda>(k, _). k \<noteq> get_cache_key (hash e) mail) (links (result_cache s))
           @ [(get_cache_key (hash e) mail, v, expires)]\<rparr>\<rparr>)"
      by (rule endpoint_hit)
    with assms have "r = v"
      and "links (result_cache s1) =
           filter (\<lambda>(k, _). k \<noteq> get_cache_key (hash e) mail) (links (result_cache s))
           @ [(get_cache_key (hash e) mail, v, expires)]"
      by auto
    then show ?thesis by (simp only: map_of_moved) simp
  next
    case False
    from assms obtain c where
      set: "cache_setitem (insert_time ctx) (result_cache s) (get_cache_key (hash e) mail) r = Inr c"
      and c: "result_cache s1 = c"
      unfolding endpoint_miss [OF conf False]
      by (auto simp: processing_error_def split: prod.splits sum.splits)
    from cache_setitem_lookup [OF set] c show ?thesis by simp
  qed
qed

text \<open>
  C7. After a run of the entry point that returned \<open>r\<close> for a text, a second run for the
  same text, made while the cache holds a live entry for its key, returns \<open>r\<close> again: it is
  the entry stored under the key, no remote invocation is made, nothing is added to the
  history, and the cache keeps the same entries (the hit only makes the entry the most
  recently used). The key is \<open>get_cache_key\<close> of the raw text alone.
\<close>

theorem repeated_request_served_from_cache:
  assumes "classify_email_endpoint e ctx1 mail s = (Inr r, s1)"
    and "cache_contains (lookup_time ctx2) (result_cache s1) (get_cache_key (hash e) mail)"
  shows "fst (classify_email_endpoint e ctx2 mail s1) = Inr r
    \<and> (\<exists>expires. map_of (links (result_cache s1)) (get_cache_key (hash e) mail) = Some (r, expires))
    \<and> api_calls (snd (classify_email_endpoint e ctx2 mail s1)) = api_calls s1
    \<and> email_history (snd (classify_email_endpoint e ctx2 mail s1)) = email_history s1
    \<and> map_of (links (result_cache (snd (classify_email_endpoint e ctx2 mail s1))))
        = map_of (links (result_cache s1))"
proof -
  let ?key = "get_cache_key (hash e) mail"
  have conf: "is_configured (client e)" using assms(1) by (rule successful_run_configured)
  from assms(1) obtain ex where stored: "map_of (links (result_cache s1)) ?key = Some (r, ex)"
    using successful_run_stores by blast
  from conf assms(2) obtain v expires where
    hit: "map_of (links (result_cache s1)) ?key = Some (v, expires)"
    and run: "classify_email_endpoint e ctx2 mail s1 =
       (Inr v, s1\<lparr>result_cache := (result_cache s1)\<lparr>links :=
           filter (\<lambda>(k, _). k \<noteq> ?key) (links (result_cache s1)) @ [(?key, v, expires)]\<rparr>\<rparr>)"
    by (rule endpoint_hit)
  from hit stored have v: "v = r" by simp
  have "map_of (filter (\<lambda>(k, _). k \<noteq> ?key) (links (result_cache s1)) @ [(?key, v, expires)])
          = map_of (links (result_cache s1))"
    unfolding map_of_moved using hit by (auto simp: fun_upd_idem_iff)
  with run v stored show ?thesis by simp
qed

theorem repeated_request_served_from_cache_witness:
  "classify_email_endpoint (example_env example_backend example_settings) (example_context 100)
     ''Oi, tudo bem?'' (example_state example_settings)
   = (Inr \<lparr>classification = ''Produtivo'', confidence = Fin 0.9, pontuation = 8,
           suggested_reply = ''Prezado, recebemos sua mensagem.''\<rparr>,
      \<lparr>result_cache = \<lparr>maxsize = 1000, ttl = 3600,
          links = [(''13'', \<lparr>classification = ''Produtivo'', confidence = Fin 0.9, pontuation = 8,
                             suggested_reply = ''Prezado, recebemos sua mensagem.''\<rparr>, 3702)]\<rparr>,
       email_history = [\<lparr>classification = ''Produtivo'', confidence = Fin 0.9, pontuation = 8,
                          suggested_reply = ''Prezado, recebemos sua mensagem.'',
                          item_id = ''7d2f'', email_content = ''Oi, tudo bem?'', created_at = 102\<rparr>],
       api_calls = 2\<rparr>)
   \<and> fst (classify_email_endpoint (example_env example_backend example_settings)
        (example_context 500) ''Oi, tudo bem?''
        \<lparr>result_cache = \<lparr>maxsize = 1000, ttl = 3600,
          links = [(''13'', \<lparr>classification = ''Produtivo'', confidence = Fin 0.9, pontuation = 8,
                             suggested_reply = ''Prezado, recebemos sua mensagem.''\<rparr>, 3702)]\<rparr>,
         email_history = [\<lparr>classification = ''Produtivo'', confidence = Fin 0.9, pontuation = 8,
                          suggested_reply = ''Prezado, recebemos sua mensagem.'',
                          item_id = ''7d2f'', email_content = ''Oi, tudo bem?'', created_at = 102\<rparr>],
         api_calls = 2\<rparr>)
     = Inr \<lparr>classification = ''Produtivo'', confidence = Fin 0.9, pontuation = 8,
            suggested_reply = ''Prezado, recebemos sua mensagem.''\<rparr>
   \<and> api_calls (snd (classify_email_endpoint (example_env example_backend example_settings)
        (example_context 500) ''Oi, tudo bem?''
        \<lparr>result_cache = \<lparr>maxsize = 1000, ttl = 3600,
          links = [(''13'', \<lparr>classification = ''Produtivo'', confidence = Fin 0.9, pontuation = 8,
                             suggested_reply = ''Prezado, recebemos sua mensagem.''\<rparr>, 3702)]\<rparr>,
         email_history = [\<lparr>classification = ''Produtivo'', confidence = Fin 0.9, pontuation = 8,
                          suggested_reply = ''Prezado, recebemos sua mensagem.'',
                          item_id = ''7d2f'', email_content = ''Oi, tudo bem?'', created_at = 102\<rparr>],
         api_calls = 2\<rparr>)) = 2"
proof -
  let ?e = "example_env example_backend example_settings"
  let ?r = "\<lparr>classification = ''Produtivo'', confidence = Fin 0.9, pontuation = 8,
           suggested_reply = ''Prezado, recebemos sua mensagem.''\<rparr>"
  let ?s1 = "\<lparr>result_cache = \<lparr>maxsize = 1000, ttl = 3600, links = [(''13'', ?r, 3702)]\<rparr>,
       email_history = [\<lparr>classification = ''Produtivo'', confidence = Fin 0.9, pontuation = 8,
                          suggested_reply = ''Prezado, recebemos sua mensagem.'',
                          item_id = ''7d2f'', email_content = ''Oi, tudo bem?'', created_at = 102\<rparr>],
       api_calls = 2\<rparr>"
  have first: "classify_email_endpoint ?e (example_context 100) ''Oi, tudo bem?''
      (example_state example_settings) = (Inr ?r, ?s1)"
    by code_simp
  have live: "cache_contains (lookup_time (example_context 500)) (result_cache ?s1)
      (get_cache_key (hash ?e) ''Oi, tudo bem?'')"
    by code_simp
  from repeated_request_served_from_cache [OF first live] first show ?thesis by simp
qed

text \<open>
  C3, amended. \<open>is_configured\<close> holds exactly when the key is not empty. Without a
  credential it is the classification entry point that fails at once, with status 503 and
  the state unchanged: no remote call, no retry, no cache access. \<open>chat_completion\<close>
  itself makes at least one remote attempt on every call, whatever the credential.
\<close>

theorem unconfigured_fails_before_any_call:
  "is_configured self = (api_key self \<noteq> [])
   \<and> (\<not> is_configured (client e) \<longrightarrow>
        classify_email_endpoint e ctx mail s = (Inl (HTTPException 503 None), s))
   \<and> calls < snd (chat_completion remote self msgs t mt mo calls)"
  using chat_completion_calls [of calls remote self msgs t mt mo]
  by (simp add: is_configured_def endpoint_unconfigured)

theorem unconfigured_fails_before_any_call_witness:
  "\<not> is_configured (client (example_env example_backend (example_settings\<lparr>OPENAI_API_KEY := []\<rparr>)))
   \<and> classify_email_endpoint (example_env example_backend (example_settings\<lparr>OPENAI_API_KEY := []\<rparr>))
        (example_context 100) ''Oi, tudo bem?'' (example_state example_settings)
      = (Inl (HTTPException 503 None), example_state example_settings)"
proof -
  let ?e = "example_env example_backend (example_settings\<lparr>OPENAI_API_KEY := []\<rparr>)"
  have n: "\<not> is_configured (client ?e)"
    by (simp add: is_configured_def example_env_def OpenAIClient_init_def example_settings_def)
  with unconfigured_fails_before_any_call
    [of "client ?e" ?e "example_context 100" "''Oi, tudo bem?''" "example_state example_settings"]
  show ?thesis by blast
qed

end
